theory Spec2Isabelle
  imports Main "HOL-Library.Multiset" "HOL-Library.List_Lexorder" "HOL-Library.Char_ord"
begin

section \<open>The JSON file store of the CollabWish API (Backend/src/index.js)\<close>

text \<open>
  The server keeps one in-memory object \<open>store\<close> with six arrays, loads it from
  \<open>data/store.json\<close> at boot and writes it back after every mutating request.
  Each HTTP handler is embedded as a function from the store before the request to an
  error (the 400 or 404 response) or the store after it together with the response body.
  The authenticated user id (\<open>req.userId\<close>), the values \<open>uuidv4()\<close> returns and the
  clock readings \<open>nowISO()\<close> returns are arguments of the handler's model, one argument
  for every call the handler makes. Socket.IO emissions change no store data and are
  left out. A string is a list of characters of HOL, read as the UTF-16 code units
  below 256; code units from 256 on are outside the model.
\<close>

subsection \<open>Entities\<close>

datatype visibility = PRIVATE | LINK | PUBLIC

datatype kind = LIKE | DISLIKE

text \<open>\<open>InvalidInput\<close> is the 400 response, \<open>NotFound\<close> the 404 response.\<close>

datatype error = InvalidInput | NotFound

record user =
  user_id :: string
  phoneNumber :: string
  user_name :: string
  email :: "string option"
  profilePictureUrl :: "string option"
  user_createdAt :: string
  user_updatedAt :: string
  shopListIds :: "string list"

text \<open>Product ids are JS numbers; the catalogue's numeric fields are kept as integers.\<close>

record product =
  product_id :: int
  product_name :: string
  price :: int
  mrp :: int
  rating :: int
  inStock :: bool
  imageUrl :: string

record shopList =
  list_id :: string
  list_name :: string
  visibility :: visibility
  ownerId :: string
  list_createdAt :: string
  list_updatedAt :: string
  participantIds :: "string list"

record shopListItem =
  item_id :: string
  productId :: int
  shopListId :: string
  addedByUserId :: string
  addedAt :: string

record reaction =
  userId :: string
  itemId :: string
  kind :: kind

record suggestion =
  suggestion_id :: string
  sg_itemId :: string
  suggestedProductId :: int
  byUserId :: string
  ts :: string

record store =
  users :: "user list"
  products :: "product list"
  shopLists :: "shopList list"
  shopListItems :: "shopListItem list"
  reactions :: "reaction list"
  suggestions :: "suggestion list"

definition defaultData :: store where
  "defaultData = \<lparr>users = [], products = [], shopLists = [], shopListItems = [],
     reactions = [], suggestions = []\<rparr>"

subsection \<open>Array helpers of JavaScript\<close>

text \<open>\<open>Array.prototype.findIndex\<close>: the first index whose element satisfies the
  predicate; JavaScript's \<open>-1\<close> is \<open>None\<close>.\<close>

fun findIndex :: "('a \<Rightarrow> bool) \<Rightarrow> 'a list \<Rightarrow> nat option" where
  "findIndex P [] = None"
| "findIndex P (x # xs) = (if P x then Some 0 else map_option Suc (findIndex P xs))"

text \<open>\<open>xs.splice(i, 1)\<close>: the element at index \<open>i\<close> is taken out.\<close>

definition splice1 :: "nat \<Rightarrow> 'a list \<Rightarrow> 'a list" where
  "splice1 i xs = take i xs @ drop (Suc i) xs"

text \<open>An object returned by \<open>find\<close> is mutated in place: the first element that
  satisfies the predicate is replaced by its updated value.\<close>

fun update_first :: "('a \<Rightarrow> bool) \<Rightarrow> ('a \<Rightarrow> 'a) \<Rightarrow> 'a list \<Rightarrow> 'a list" where
  "update_first P f [] = []"
| "update_first P f (x # xs) = (if P x then f x # xs else x # update_first P f xs)"

text \<open>\<open>String.prototype.trim\<close> strips the white space and line terminator code units
  of ECMAScript. Those below 256 are tab, line feed, vertical tab, form feed, carriage
  return, space and the no-break space U+00A0.\<close>

definition is_space :: "char \<Rightarrow> bool" where
  "is_space c = (c = CHR '' '' \<or> c = CHR 0x09 \<or> c = CHR 0x0A \<or> c = CHR 0x0B
     \<or> c = CHR 0x0C \<or> c = CHR 0x0D \<or> c = CHR 0xA0)"

definition trim :: "string \<Rightarrow> string" where
  "trim s = rev (dropWhile is_space (rev (dropWhile is_space s)))"

text \<open>\<open>ph.slice(-4)\<close>: the last four characters, the whole string when it is shorter.\<close>

definition slice_last4 :: "string \<Rightarrow> string" where
  "slice_last4 ph = drop (length ph - 4) ph"

subsection \<open>Request validators (zod schemas)\<close>

text \<open>A required request field is \<open>None\<close> when the body does not carry it or
  carries a value of the wrong JSON type: both are refused. An optional field may be
  absent, which is accepted, or carry a value of the wrong JSON type (\<open>null\<close>, a
  number, an array with an element that is no string), which is refused.\<close>

datatype 'a optional = Absent | Invalid | Present 'a

fun parse_optional :: "('a \<Rightarrow> 'b option) \<Rightarrow> 'a optional \<Rightarrow> 'b option option" where
  "parse_optional p Absent = Some None"
| "parse_optional p Invalid = None"
| "parse_optional p (Present x) = map_option Some (p x)"

fun parse_kind :: "string \<Rightarrow> kind option" where
  "parse_kind s = (if s = ''LIKE'' then Some LIKE
     else if s = ''DISLIKE'' then Some DISLIKE else None)"

fun kind_name :: "kind \<Rightarrow> string" where
  "kind_name LIKE = ''LIKE''"
| "kind_name DISLIKE = ''DISLIKE''"

fun parse_visibility :: "string \<Rightarrow> visibility option" where
  "parse_visibility s = (if s = ''PRIVATE'' then Some PRIVATE
     else if s = ''LINK'' then Some LINK
     else if s = ''PUBLIC'' then Some PUBLIC else None)"

record loginBody =
  lb_phoneNumber :: "string option"
  lb_name :: "string option"

text \<open>\<open>LoginBody\<close>: \<open>phoneNumber\<close> a string of at least 5 characters, \<open>name\<close> a
  string of at least one.\<close>

definition parse_LoginBody :: "loginBody \<Rightarrow> (string \<times> string) option" where
  "parse_LoginBody b =
     (case (lb_phoneNumber b, lb_name b) of
        (Some ph, Some nm) \<Rightarrow> if 5 \<le> length ph \<and> 1 \<le> length nm then Some (ph, nm) else None
      | _ \<Rightarrow> None)"

record createListBody =
  cl_name :: "string option"
  cl_visibility :: "string optional"
  cl_participantPhoneNumbers :: "string list optional"

text \<open>\<open>CreateListBody\<close>: \<open>name\<close> a string of at least one character, \<open>visibility\<close>
  optional and one of the three enum strings, \<open>participantPhoneNumbers\<close> an optional
  array of strings.\<close>

definition parse_CreateListBody ::
  "createListBody \<Rightarrow> (string \<times> visibility option \<times> string list option) option" where
  "parse_CreateListBody b =
     (case cl_name b of
        None \<Rightarrow> None
      | Some nm \<Rightarrow>
          if length nm < 1 then None
          else (case parse_optional parse_visibility (cl_visibility b) of
                  None \<Rightarrow> None
                | Some vis \<Rightarrow>
                    (case parse_optional Some (cl_participantPhoneNumbers b) of
                       None \<Rightarrow> None
                     | Some phones \<Rightarrow> Some (nm, vis, phones))))"

subsection \<open>Helpers of the handlers\<close>

text \<open>The user object both \<open>POST /auth/login\<close> and \<open>findOrCreateUserByPhone\<close> build:
  \<open>created\<close> and \<open>updated\<close> are the two readings of the clock, taken one after
  the other.\<close>

definition new_user :: "string \<Rightarrow> string \<Rightarrow> string \<Rightarrow> string \<Rightarrow> string \<Rightarrow> user" where
  "new_user newId created updated ph nm = \<lparr>user_id = newId, phoneNumber = ph,
     user_name = nm, email = None, profilePictureUrl = None, user_createdAt = created,
     user_updatedAt = updated, shopListIds = []\<rparr>"

text \<open>\<open>findOrCreateUserByPhone\<close>: the first user with the phone number, or a new user
  pushed at the end of \<open>store.users\<close>. \<open>newId\<close> is what \<open>uuidv4()\<close> returns if it
  is called, \<open>created\<close> and \<open>updated\<close> what the two calls of \<open>nowISO()\<close> return.\<close>

definition findOrCreateUserByPhone ::
  "string \<Rightarrow> string \<Rightarrow> string \<Rightarrow> string \<Rightarrow> string \<Rightarrow> user list \<Rightarrow> user list \<times> user" where
  "findOrCreateUserByPhone newId created updated ph nameFallback us =
     (case find (\<lambda>x. phoneNumber x = ph) us of
        Some u \<Rightarrow> (us, u)
      | None \<Rightarrow> (us @ [new_user newId created updated ph nameFallback],
                 new_user newId created updated ph nameFallback))"

record enrichedSuggestion =
  es_suggestion :: suggestion
  es_product :: "product option"
  es_byUser :: "user option"

record enrichedItem =
  ei_item :: shopListItem
  ei_product :: "product option"
  ei_reactions :: "reaction list"
  ei_suggestions :: "enrichedSuggestion list"

definition enrichSuggestion :: "store \<Rightarrow> suggestion \<Rightarrow> enrichedSuggestion" where
  "enrichSuggestion s sg = \<lparr>es_suggestion = sg,
     es_product = find (\<lambda>p. product_id p = suggestedProductId sg) (products s),
     es_byUser = find (\<lambda>u. user_id u = byUserId sg) (users s)\<rparr>"

definition enrichItem :: "store \<Rightarrow> shopListItem \<Rightarrow> enrichedItem" where
  "enrichItem s i = \<lparr>ei_item = i,
     ei_product = find (\<lambda>p. product_id p = productId i) (products s),
     ei_reactions = filter (\<lambda>r. itemId r = item_id i) (reactions s),
     ei_suggestions =
       map (enrichSuggestion s) (filter (\<lambda>sg. sg_itemId sg = item_id i) (suggestions s))\<rparr>"

text \<open>\<open>Array.prototype.sort\<close> with a comparator, as a stable insertion sort: \<open>x\<close> goes
  before \<open>y\<close> when \<open>cmp x y \<le> 0\<close>. The comparator of the item listing never
  answers 0, so for two items with equal \<open>addedAt\<close> the engine's order is its own
  choice; the order of items with different \<open>addedAt\<close> is the one computed here.\<close>

fun insert_by :: "('a \<Rightarrow> 'a \<Rightarrow> int) \<Rightarrow> 'a \<Rightarrow> 'a list \<Rightarrow> 'a list" where
  "insert_by cmp x [] = [x]"
| "insert_by cmp x (y # ys) = (if cmp x y \<le> 0 then x # y # ys else y # insert_by cmp x ys)"

fun sort_by :: "('a \<Rightarrow> 'a \<Rightarrow> int) \<Rightarrow> 'a list \<Rightarrow> 'a list" where
  "sort_by cmp [] = []"
| "sort_by cmp (x # xs) = insert_by cmp x (sort_by cmp xs)"

text \<open>\<open>(a, b) => (a.addedAt < b.addedAt ? 1 : -1)\<close>; strings compare
  lexicographically.\<close>

definition cmp_addedAt :: "shopListItem \<Rightarrow> shopListItem \<Rightarrow> int" where
  "cmp_addedAt a b = (if addedAt a < addedAt b then 1 else - 1)"

subsection \<open>The handlers\<close>

text \<open>\<open>POST /auth/login\<close>: the first user with the phone number, renamed when the
  name differs, or a new user. The response carries the user (and a token). \<open>now\<close> is
  the first reading of the clock, \<open>now2\<close> the second, which only a new user takes.\<close>

definition login ::
  "string \<Rightarrow> string \<Rightarrow> string \<Rightarrow> loginBody \<Rightarrow> store \<Rightarrow> error + (store \<times> user)" where
  "login newId now now2 body s =
     (case parse_LoginBody body of
        None \<Rightarrow> Inl InvalidInput
      | Some (ph, nm) \<Rightarrow>
          (case find (\<lambda>u. phoneNumber u = ph) (users s) of
             None \<Rightarrow>
               Inr (s\<lparr>users := users s @ [new_user newId now now2 ph nm]\<rparr>,
                    new_user newId now now2 ph nm)
           | Some u \<Rightarrow>
               if user_name u \<noteq> nm
               then Inr (s\<lparr>users := update_first (\<lambda>u. phoneNumber u = ph)
                             (\<lambda>u. u\<lparr>user_name := nm, user_updatedAt := now\<rparr>) (users s)\<rparr>,
                         u\<lparr>user_name := nm, user_updatedAt := now\<rparr>)
               else Inr (s, u)))"

text \<open>The loop of \<open>POST /lists\<close> over \<open>participantPhoneNumbers\<close>. \<open>env k\<close> holds
  what \<open>uuidv4()\<close> and the two calls of \<open>nowISO()\<close> return for the phone number at
  position \<open>k\<close> if that number is unknown. The loop state is \<open>store.users\<close> and the
  list under construction.\<close>

fun add_participants ::
  "(nat \<Rightarrow> string \<times> string \<times> string) \<Rightarrow> nat \<Rightarrow> string list \<Rightarrow> user list \<Rightarrow> shopList
     \<Rightarrow> user list \<times> shopList" where
  "add_participants env k [] us l = (us, l)"
| "add_participants env k (ph # phs) us l =
     (case findOrCreateUserByPhone (fst (env k)) (fst (snd (env k))) (snd (snd (env k))) ph
             (''User '' @ slice_last4 ph) us of
        (us1, u) \<Rightarrow>
          add_participants env (Suc k) phs
            (if list_id l \<in> set (shopListIds u) then us1
             else update_first (\<lambda>x. phoneNumber x = ph)
                    (\<lambda>x. x\<lparr>shopListIds := shopListIds x @ [list_id l]\<rparr>) us1)
            (if user_id u \<in> set (participantIds l) then l
             else l\<lparr>participantIds := participantIds l @ [user_id u]\<rparr>))"

text \<open>\<open>POST /lists\<close>. The name is validated, then trimmed. \<open>created\<close> and
  \<open>updated\<close> are the two readings of the clock for the list.\<close>

definition create_list ::
  "string \<Rightarrow> string \<Rightarrow> string \<Rightarrow> (nat \<Rightarrow> string \<times> string \<times> string) \<Rightarrow> string
     \<Rightarrow> createListBody \<Rightarrow> store \<Rightarrow> error + (store \<times> shopList)" where
  "create_list listId created updated env owner body s =
     (case parse_CreateListBody body of
        None \<Rightarrow> Inl InvalidInput
      | Some (nm, vis, phones) \<Rightarrow>
          (let l0 = \<lparr>list_id = listId, list_name = trim nm,
                     visibility = (case vis of None \<Rightarrow> LINK | Some v \<Rightarrow> v),
                     ownerId = owner, list_createdAt = created, list_updatedAt = updated,
                     participantIds = []\<rparr>;
               l1 = (if owner \<in> set (participantIds l0) then l0
                     else l0\<lparr>participantIds := participantIds l0 @ [owner]\<rparr>);
               us1 = (case find (\<lambda>u. user_id u = owner) (users s) of
                        None \<Rightarrow> users s
                      | Some me \<Rightarrow>
                          if listId \<in> set (shopListIds me) then users s
                          else update_first (\<lambda>u. user_id u = owner)
                                 (\<lambda>u. u\<lparr>shopListIds := shopListIds u @ [listId]\<rparr>) (users s))
           in (case add_participants env 0 (case phones of None \<Rightarrow> [] | Some phs \<Rightarrow> phs)
                      us1 l1 of
                 (us2, l2) \<Rightarrow> Inr (s\<lparr>users := us2, shopLists := l2 # shopLists s\<rparr>, l2))))"

text \<open>\<open>DELETE /lists/:id\<close>.\<close>

definition delete_list :: "string \<Rightarrow> store \<Rightarrow> error + store" where
  "delete_list lid s =
     (case find (\<lambda>x. list_id x = lid) (shopLists s) of
        None \<Rightarrow> Inl NotFound
      | Some l \<Rightarrow>
          (let items' = filter (\<lambda>i. shopListId i \<noteq> lid) (shopListItems s);
               reactions' = filter (\<lambda>r. list_ex (\<lambda>i. item_id i = itemId r) items') (reactions s);
               suggestions' =
                 filter (\<lambda>sg. list_ex (\<lambda>i. item_id i = sg_itemId sg) items') (suggestions s);
               lists' = filter (\<lambda>x. list_id x \<noteq> lid) (shopLists s);
               users' = map (\<lambda>u. u\<lparr>shopListIds := filter (\<lambda>x. x \<noteq> lid) (shopListIds u)\<rparr>)
                          (users s)
           in Inr (s\<lparr>users := users', shopLists := lists', shopListItems := items',
                     reactions := reactions', suggestions := suggestions'\<rparr>)))"

text \<open>\<open>POST /lists/:id/join\<close>. The response is the list after the join.\<close>

definition join_list :: "string \<Rightarrow> string \<Rightarrow> string \<Rightarrow> store \<Rightarrow> error + (store \<times> shopList)" where
  "join_list now uid lid s =
     (case find (\<lambda>l. list_id l = lid) (shopLists s) of
        None \<Rightarrow> Inl NotFound
      | Some l \<Rightarrow>
          (let l' = (if uid \<in> set (participantIds l) then l
                     else l\<lparr>participantIds := participantIds l @ [uid]\<rparr>)\<lparr>list_updatedAt := now\<rparr>;
               users' = (case find (\<lambda>x. user_id x = uid) (users s) of
                           None \<Rightarrow> users s
                         | Some u \<Rightarrow>
                             if lid \<in> set (shopListIds u) then users s
                             else update_first (\<lambda>x. user_id x = uid)
                                    (\<lambda>x. x\<lparr>shopListIds := shopListIds x @ [lid]\<rparr>) (users s))
           in Inr (s\<lparr>users := users',
                     shopLists := update_first (\<lambda>l. list_id l = lid) (\<lambda>_. l') (shopLists s)\<rparr>,
                   l')))"

text \<open>\<open>GET /lists/:id/items\<close>: no look-up of the list; the store is not changed.\<close>

definition list_items :: "string \<Rightarrow> store \<Rightarrow> error + enrichedItem list" where
  "list_items lid s =
     Inr (map (enrichItem s)
            (sort_by cmp_addedAt (filter (\<lambda>i. shopListId i = lid) (shopListItems s))))"

text \<open>\<open>POST /lists/:id/items\<close>. \<open>pid\<close> is \<open>Number(req.body?.productId)\<close>, \<open>None\<close>
  for \<open>NaN\<close>; 0 and \<open>NaN\<close> are refused with 400.\<close>

definition add_item ::
  "string \<Rightarrow> string \<Rightarrow> string \<Rightarrow> string \<Rightarrow> int option \<Rightarrow> store
     \<Rightarrow> error + (store \<times> enrichedItem)" where
  "add_item newId now uid lid pid s =
     (case pid of
        None \<Rightarrow> Inl InvalidInput
      | Some p \<Rightarrow>
          if p = 0 then Inl InvalidInput
          else (case find (\<lambda>x. product_id x = p) (products s) of
                  None \<Rightarrow> Inl NotFound
                | Some _ \<Rightarrow>
                    (let item = \<lparr>item_id = newId, productId = p, shopListId = lid,
                                  addedByUserId = uid, addedAt = now\<rparr>;
                         s' = s\<lparr>shopListItems := item # shopListItems s\<rparr>
                     in Inr (s', enrichItem s' item))))"

text \<open>\<open>DELETE /items/:itemId\<close>.\<close>

definition remove_item :: "string \<Rightarrow> store \<Rightarrow> error + store" where
  "remove_item iid s =
     (case find (\<lambda>i. item_id i = iid) (shopListItems s) of
        None \<Rightarrow> Inl NotFound
      | Some _ \<Rightarrow>
          Inr (s\<lparr>shopListItems := filter (\<lambda>i. item_id i \<noteq> iid) (shopListItems s),
                 reactions := filter (\<lambda>r. itemId r \<noteq> iid) (reactions s),
                 suggestions := filter (\<lambda>sg. sg_itemId sg \<noteq> iid) (suggestions s)\<rparr>))"

record reactPayload =
  rp_itemId :: string
  likes :: nat
  dislikes :: nat

text \<open>The three branches of the toggle on \<open>store.reactions\<close>.\<close>

definition toggle :: "string \<Rightarrow> string \<Rightarrow> kind \<Rightarrow> reaction list \<Rightarrow> reaction list" where
  "toggle uid iid k rs =
     (case findIndex (\<lambda>r. userId r = uid \<and> itemId r = iid) rs of
        Some idx \<Rightarrow>
          if kind (rs ! idx) = k then splice1 idx rs
          else rs[idx := (rs ! idx)\<lparr>kind := k\<rparr>]
      | None \<Rightarrow> rs @ [\<lparr>userId = uid, itemId = iid, kind = k\<rparr>])"

text \<open>\<open>POST /items/:itemId/react\<close>. \<open>raw\<close> is the body's \<open>kind\<close>.\<close>

definition react ::
  "string \<Rightarrow> string \<Rightarrow> string option \<Rightarrow> store \<Rightarrow> error + (store \<times> reactPayload)" where
  "react uid iid raw s =
     (case (case raw of None \<Rightarrow> None | Some r \<Rightarrow> parse_kind r) of
        None \<Rightarrow> Inl InvalidInput
      | Some k \<Rightarrow>
          (let rs' = toggle uid iid k (reactions s)
           in Inr (s\<lparr>reactions := rs'\<rparr>,
                   \<lparr>rp_itemId = iid,
                    likes = length (filter (\<lambda>r. itemId r = iid \<and> kind r = LIKE) rs'),
                    dislikes = length (filter (\<lambda>r. itemId r = iid \<and> kind r = DISLIKE) rs')\<rparr>)))"

text \<open>\<open>POST /items/:itemId/suggest\<close>. \<open>pid\<close> is the body's \<open>productId\<close>, \<open>None\<close>
  when it is not a number.\<close>

definition suggest ::
  "string \<Rightarrow> string \<Rightarrow> string \<Rightarrow> string \<Rightarrow> int option \<Rightarrow> store
     \<Rightarrow> error + (store \<times> enrichedSuggestion)" where
  "suggest newId now uid iid pid s =
     (case pid of
        None \<Rightarrow> Inl InvalidInput
      | Some p \<Rightarrow>
          (case find (\<lambda>x. product_id x = p) (products s) of
             None \<Rightarrow> Inl NotFound
           | Some _ \<Rightarrow>
               (let sg = \<lparr>suggestion_id = newId, sg_itemId = iid, suggestedProductId = p,
                           byUserId = uid, ts = now\<rparr>;
                    s' = s\<lparr>suggestions := suggestions s @ [sg]\<rparr>
                in Inr (s', enrichSuggestion s' sg))))"

subsection \<open>Sequences of requests\<close>

text \<open>The mutating requests, each with the values the environment supplies to it. A
  request that is answered with an error returns before it has written anything, so the
  store after it is the store before it.\<close>

datatype request =
    Login string string string loginBody
  | CreateList string string string "nat \<Rightarrow> string \<times> string \<times> string" string createListBody
  | DeleteList string
  | JoinList string string string
  | AddItem string string string string "int option"
  | RemoveItem string
  | React string string "string option"
  | Suggest string string string string "int option"

fun apply_request :: "request \<Rightarrow> store \<Rightarrow> store" where
  "apply_request (Login newId now now2 body) s =
     (case login newId now now2 body s of Inl _ \<Rightarrow> s | Inr (s', _) \<Rightarrow> s')"
| "apply_request (CreateList listId created updated env owner body) s =
     (case create_list listId created updated env owner body s of
        Inl _ \<Rightarrow> s | Inr (s', _) \<Rightarrow> s')"
| "apply_request (DeleteList lid) s =
     (case delete_list lid s of Inl _ \<Rightarrow> s | Inr s' \<Rightarrow> s')"
| "apply_request (JoinList now uid lid) s =
     (case join_list now uid lid s of Inl _ \<Rightarrow> s | Inr (s', _) \<Rightarrow> s')"
| "apply_request (AddItem newId now uid lid pid) s =
     (case add_item newId now uid lid pid s of Inl _ \<Rightarrow> s | Inr (s', _) \<Rightarrow> s')"
| "apply_request (RemoveItem iid) s =
     (case remove_item iid s of Inl _ \<Rightarrow> s | Inr s' \<Rightarrow> s')"
| "apply_request (React uid iid raw) s =
     (case react uid iid raw s of Inl _ \<Rightarrow> s | Inr (s', _) \<Rightarrow> s')"
| "apply_request (Suggest newId now uid iid pid) s =
     (case suggest newId now uid iid pid s of Inl _ \<Rightarrow> s | Inr (s', _) \<Rightarrow> s')"

fun run :: "request list \<Rightarrow> store \<Rightarrow> store" where
  "run [] s = s"
| "run (r # rs) s = run rs (apply_request r s)"

subsection \<open>Predicates on the store\<close>

text \<open>The reaction is the one of user \<open>uid\<close> on item \<open>iid\<close>.\<close>

definition by_pair :: "string \<Rightarrow> string \<Rightarrow> reaction \<Rightarrow> bool" where
  "by_pair uid iid r = (userId r = uid \<and> itemId r = iid)"

definition reaction_count :: "string \<Rightarrow> string \<Rightarrow> store \<Rightarrow> nat" where
  "reaction_count uid iid s = length (filter (by_pair uid iid) (reactions s))"

definition count_kind :: "string \<Rightarrow> kind \<Rightarrow> reaction list \<Rightarrow> nat" where
  "count_kind iid k rs = length (filter (\<lambda>r. itemId r = iid \<and> kind r = k) rs)"

text \<open>No orphans: every item's list, every reaction's item and every suggestion's item
  is in the store.\<close>

definition items_have_lists :: "store \<Rightarrow> bool" where
  "items_have_lists s =
     list_all (\<lambda>i. list_ex (\<lambda>l. list_id l = shopListId i) (shopLists s)) (shopListItems s)"

definition reactions_have_items :: "store \<Rightarrow> bool" where
  "reactions_have_items s =
     list_all (\<lambda>r. list_ex (\<lambda>i. item_id i = itemId r) (shopListItems s)) (reactions s)"

definition suggestions_have_items :: "store \<Rightarrow> bool" where
  "suggestions_have_items s =
     list_all (\<lambda>sg. list_ex (\<lambda>i. item_id i = sg_itemId sg) (shopListItems s)) (suggestions s)"

definition no_orphans :: "store \<Rightarrow> bool" where
  "no_orphans s = (items_have_lists s \<and> reactions_have_items s \<and> suggestions_have_items s)"

subsection \<open>JSON documents and their text\<close>

text \<open>A JSON document is what \<open>JSON.parse\<close> returns and \<open>JSON.stringify\<close> takes. Its
  numbers are the integers: a number with a fraction or an exponent has no value here.
  An object is the list of its members, in their order.\<close>

datatype json = JNull | JBool bool | JNum int | JStr string | JArr "json list"
  | JObj "(string \<times> json) list"

text \<open>The decimal digits of an integer, as \<open>JSON.stringify\<close> prints an integer below
  \<open>10\<^sup>2\<^sup>1\<close>, and their value.\<close>

definition digit_char :: "nat \<Rightarrow> char" where
  "digit_char d = char_of (48 + d)"

definition is_digit :: "char \<Rightarrow> bool" where
  "is_digit c = (48 \<le> (of_char c :: nat) \<and> (of_char c :: nat) \<le> 57)"

definition digit_val :: "char \<Rightarrow> nat" where
  "digit_val c = of_char c - 48"

fun show_nat :: "nat \<Rightarrow> string" where
  "show_nat n = (if n < 10 then [digit_char n] else show_nat (n div 10) @ [digit_char (n mod 10)])"

definition show_int :: "int \<Rightarrow> string" where
  "show_int i = (if i < 0 then CHR ''-'' # show_nat (nat (- i)) else show_nat (nat i))"

definition read_nat :: "string \<Rightarrow> nat" where
  "read_nat ds = foldl (\<lambda>a c. 10 * a + digit_val c) 0 ds"

text \<open>A string between quotes, as \<open>JSON.stringify\<close> writes it: the quote, the
  backslash and the code units 8, 9, 10, 12 and 13 by their two-character escapes, the
  other code units below 32 as \<open>\u00\<close> and two lower-case hex digits, every other
  code unit as it is.\<close>

definition hex_char :: "nat \<Rightarrow> char" where
  "hex_char d = (if d < 10 then char_of (48 + d) else char_of (87 + d))"

definition hex_val :: "char \<Rightarrow> nat option" where
  "hex_val c = (let n = (of_char c :: nat) in
     if 48 \<le> n \<and> n \<le> 57 then Some (n - 48)
     else if 97 \<le> n \<and> n \<le> 102 then Some (n - 87)
     else if 65 \<le> n \<and> n \<le> 70 then Some (n - 55)
     else None)"

definition escape_char :: "char \<Rightarrow> string" where
  "escape_char c =
     (if c = CHR 0x22 then [CHR 0x5C, CHR 0x22]
      else if c = CHR 0x5C then [CHR 0x5C, CHR 0x5C]
      else if c = CHR 0x08 then [CHR 0x5C, CHR ''b'']
      else if c = CHR 0x0C then [CHR 0x5C, CHR ''f'']
      else if c = CHR 0x0A then [CHR 0x5C, CHR ''n'']
      else if c = CHR 0x0D then [CHR 0x5C, CHR ''r'']
      else if c = CHR 0x09 then [CHR 0x5C, CHR ''t'']
      else if (of_char c :: nat) < 32
        then [CHR 0x5C, CHR ''u'', CHR ''0'', CHR ''0'',
              hex_char (of_char c div 16), hex_char (of_char c mod 16)]
      else [c])"

definition quote :: "string \<Rightarrow> string" where
  "quote s = CHR 0x22 # concat (map escape_char s) @ [CHR 0x22]"

text \<open>The string grammar of \<open>JSON.parse\<close>, read from behind the opening quote up to
  the closing one: the eight two-character escapes, \<open>\u\<close> with four hex digits of
  either case, no code unit below 32 as it is. A \<open>\u\<close> escape of a code unit from
  256 on has no value in the strings of the model.\<close>

definition unescape :: "char \<Rightarrow> char option" where
  "unescape e =
     (if e = CHR 0x22 then Some (CHR 0x22)
      else if e = CHR 0x5C then Some (CHR 0x5C)
      else if e = CHR ''/'' then Some (CHR ''/'')
      else if e = CHR ''b'' then Some (CHR 0x08)
      else if e = CHR ''f'' then Some (CHR 0x0C)
      else if e = CHR ''n'' then Some (CHR 0x0A)
      else if e = CHR ''r'' then Some (CHR 0x0D)
      else if e = CHR ''t'' then Some (CHR 0x09)
      else None)"

definition hex4 :: "char \<Rightarrow> char \<Rightarrow> char \<Rightarrow> char \<Rightarrow> char option" where
  "hex4 h1 h2 h3 h4 =
     (case (hex_val h1, hex_val h2, hex_val h3, hex_val h4) of
        (Some a, Some b, Some c, Some d) \<Rightarrow>
          if ((a * 16 + b) * 16 + c) * 16 + d < 256
          then Some (char_of (((a * 16 + b) * 16 + c) * 16 + d)) else None
      | _ \<Rightarrow> None)"

definition cons_result :: "char \<Rightarrow> (string \<times> string) option \<Rightarrow> (string \<times> string) option" where
  "cons_result c r = (case r of None \<Rightarrow> None | Some (s, t) \<Rightarrow> Some (c # s, t))"

fun parse_string :: "string \<Rightarrow> (string \<times> string) option" where
  "parse_string [] = None"
| "parse_string (c # cs) =
     (if c = CHR 0x22 then Some ([], cs)
      else if c = CHR 0x5C then
        (case cs of
           [] \<Rightarrow> None
         | e # r \<Rightarrow>
             if e = CHR ''u'' then
               (case r of
                  h1 # h2 # h3 # h4 # r' \<Rightarrow>
                    (case hex4 h1 h2 h3 h4 of
                       None \<Rightarrow> None
                     | Some x \<Rightarrow> cons_result x (parse_string r'))
                | _ \<Rightarrow> None)
             else (case unescape e of
                     None \<Rightarrow> None
                   | Some x \<Rightarrow> cons_result x (parse_string r)))
      else if (of_char c :: nat) < 32 then None
      else cons_result c (parse_string cs))"

text \<open>The white space of JSON: space, tab, line feed, carriage return.\<close>

definition is_ws :: "char \<Rightarrow> bool" where
  "is_ws c = (c = CHR '' '' \<or> c = CHR 0x09 \<or> c = CHR 0x0A \<or> c = CHR 0x0D)"

definition skip_ws :: "string \<Rightarrow> string" where
  "skip_ws cs = dropWhile is_ws cs"

text \<open>\<open>JSON.stringify(value, null, 2)\<close>: a line feed and two spaces for every level
  before each element, each member and the closing bracket of an array or object that
  is not empty; a comma behind every element and member but the last; a colon and a
  space behind a key; \<open>[]\<close> and \<open>{}\<close> for the empty array and object.
  \<open>stringify_elems n\<close> writes the elements of an array of level \<open>n\<close> and its closing
  bracket.\<close>

definition nl :: "nat \<Rightarrow> string" where
  "nl n = CHR 0x0A # replicate (2 * n) (CHR '' '')"

fun stringify_at :: "nat \<Rightarrow> json \<Rightarrow> string"
  and stringify_elems :: "nat \<Rightarrow> json list \<Rightarrow> string"
  and stringify_members :: "nat \<Rightarrow> (string \<times> json) list \<Rightarrow> string" where
  "stringify_at n JNull = ''null''"
| "stringify_at n (JBool b) = (if b then ''true'' else ''false'')"
| "stringify_at n (JNum i) = show_int i"
| "stringify_at n (JStr s) = quote s"
| "stringify_at n (JArr []) = ''[]''"
| "stringify_at n (JArr (x # xs)) = CHR ''['' # nl (Suc n) @ stringify_elems n (x # xs)"
| "stringify_at n (JObj []) = ''{}''"
| "stringify_at n (JObj (kv # kvs)) = CHR ''{'' # nl (Suc n) @ stringify_members n (kv # kvs)"
| "stringify_elems n [] = nl n @ '']''"
| "stringify_elems n (x # xs) = stringify_at (Suc n) x
     @ (if xs = [] then [] else CHR '','' # nl (Suc n)) @ stringify_elems n xs"
| "stringify_members n [] = nl n @ ''}''"
| "stringify_members n ((k, v) # kvs) = quote k @ '': '' @ stringify_at (Suc n) v
     @ (if kvs = [] then [] else CHR '','' # nl (Suc n)) @ stringify_members n kvs"

text \<open>A number token: the longest run of digits, behind a minus sign if there is one. No
  digits, a leading zero before further digits, and a fraction or an exponent behind the
  digits give no value.\<close>

definition parse_number :: "string \<Rightarrow> (json \<times> string) option" where
  "parse_number cs =
     (let neg = (cs \<noteq> [] \<and> hd cs = CHR ''-'');
          body = (if neg then tl cs else cs);
          ds = takeWhile is_digit body;
          rest = dropWhile is_digit body
      in if ds = [] then None
         else if 1 < length ds \<and> hd ds = CHR ''0'' then None
         else if rest \<noteq> [] \<and> (hd rest = CHR ''.'' \<or> hd rest = CHR ''e'' \<or> hd rest = CHR ''E'')
           then None
         else Some (JNum (if neg then - int (read_nat ds) else int (read_nat ds)), rest))"

text \<open>One of the words \<open>null\<close>, \<open>true\<close>, \<open>false\<close>.\<close>

definition parse_literal :: "string \<Rightarrow> json \<Rightarrow> string \<Rightarrow> (json \<times> string) option" where
  "parse_literal w v cs = (if take (length w) cs = w then Some (v, drop (length w) cs) else None)"

text \<open>The grammar of \<open>JSON.parse\<close> by recursive descent. Each function returns what it
  read and the text behind it. The first argument is fuel: every call of one of the
  three functions by another takes one unit, so that the recursion is on the fuel; with
  no fuel left the answer is \<open>None\<close>.\<close>

fun parse_value :: "nat \<Rightarrow> string \<Rightarrow> (json \<times> string) option"
  and parse_elems :: "nat \<Rightarrow> string \<Rightarrow> (json list \<times> string) option"
  and parse_members :: "nat \<Rightarrow> string \<Rightarrow> ((string \<times> json) list \<times> string) option" where
  "parse_value 0 cs = None"
| "parse_value (Suc f) cs =
     (case skip_ws cs of
        [] \<Rightarrow> None
      | c # r \<Rightarrow>
          if c = CHR ''n'' then parse_literal ''null'' JNull (c # r)
          else if c = CHR ''t'' then parse_literal ''true'' (JBool True) (c # r)
          else if c = CHR ''f'' then parse_literal ''false'' (JBool False) (c # r)
          else if c = CHR 0x22 then
            (case parse_string r of None \<Rightarrow> None | Some (s, r') \<Rightarrow> Some (JStr s, r'))
          else if c = CHR ''['' then
            (case skip_ws r of
               [] \<Rightarrow> None
             | d # r' \<Rightarrow>
                 if d = CHR '']'' then Some (JArr [], r')
                 else (case parse_elems f r of
                         None \<Rightarrow> None
                       | Some (vs, r'') \<Rightarrow> Some (JArr vs, r'')))
          else if c = CHR ''{'' then
            (case skip_ws r of
               [] \<Rightarrow> None
             | d # r' \<Rightarrow>
                 if d = CHR ''}'' then Some (JObj [], r')
                 else (case parse_members f r of
                         None \<Rightarrow> None
                       | Some (kvs, r'') \<Rightarrow> Some (JObj kvs, r'')))
          else parse_number (c # r))"
| "parse_elems 0 cs = None"
| "parse_elems (Suc f) cs =
     (case parse_value f cs of
        None \<Rightarrow> None
      | Some (v, r) \<Rightarrow>
          (case skip_ws r of
             [] \<Rightarrow> None
           | d # r' \<Rightarrow>
               if d = CHR '']'' then Some ([v], r')
               else if d = CHR '','' then
                 (case parse_elems f r' of
                    None \<Rightarrow> None
                  | Some (vs, r'') \<Rightarrow> Some (v # vs, r''))
               else None))"
| "parse_members 0 cs = None"
| "parse_members (Suc f) cs =
     (case skip_ws cs of
        [] \<Rightarrow> None
      | q # r0 \<Rightarrow>
          if q \<noteq> CHR 0x22 then None
          else (case parse_string r0 of
                  None \<Rightarrow> None
                | Some (k, r1) \<Rightarrow>
                    (case skip_ws r1 of
                       [] \<Rightarrow> None
                     | c # r2 \<Rightarrow>
                         if c \<noteq> CHR '':'' then None
                         else (case parse_value f r2 of
                                 None \<Rightarrow> None
                               | Some (v, r) \<Rightarrow>
                                   (case skip_ws r of
                                      [] \<Rightarrow> None
                                    | d # r' \<Rightarrow>
                                        if d = CHR ''}'' then Some ([(k, v)], r')
                                        else if d = CHR '','' then
                                          (case parse_members f r' of
                                             None \<Rightarrow> None
                                           | Some (kvs, r'') \<Rightarrow> Some ((k, v) # kvs, r''))
                                        else None)))))"

text \<open>\<open>JSON.stringify(value, null, 2)\<close> and \<open>JSON.parse(text)\<close>; \<open>None\<close> is the
  thrown \<open>SyntaxError\<close>. Behind the value only white space may follow. The fuel is
  twice the length of the text and two more: of two calls in a row at most one, that of
  \<open>parse_value\<close> by \<open>parse_elems\<close>, reads no character before it.\<close>

definition JSON_stringify :: "json \<Rightarrow> string" where
  "JSON_stringify v = stringify_at 0 v"

definition JSON_parse :: "string \<Rightarrow> json option" where
  "JSON_parse s =
     (case parse_value (2 * length s + 2) s of
        None \<Rightarrow> None
      | Some (v, r) \<Rightarrow> if skip_ws r = [] then Some v else None)"




subsection \<open>The store as a JSON document\<close>

text \<open>The in-memory store is the object \<open>JSON.parse\<close> returned, changed by the handlers.
  \<open>json_of_store\<close> is the document of a store of the model: the keys, and their order,
  are those of the object literals in the handlers and of \<open>defaultData\<close>.\<close>

fun visibility_name :: "visibility \<Rightarrow> string" where
  "visibility_name PRIVATE = ''PRIVATE''"
| "visibility_name LINK = ''LINK''"
| "visibility_name PUBLIC = ''PUBLIC''"

fun json_of_nullable :: "string option \<Rightarrow> json" where
  "json_of_nullable None = JNull"
| "json_of_nullable (Some s) = JStr s"

definition json_of_user :: "user \<Rightarrow> json" where
  "json_of_user u = JObj [(''id'', JStr (user_id u)), (''phoneNumber'', JStr (phoneNumber u)),
     (''name'', JStr (user_name u)), (''email'', json_of_nullable (email u)),
     (''profilePictureUrl'', json_of_nullable (profilePictureUrl u)),
     (''createdAt'', JStr (user_createdAt u)), (''updatedAt'', JStr (user_updatedAt u)),
     (''shopListIds'', JArr (map JStr (shopListIds u)))]"

definition json_of_product :: "product \<Rightarrow> json" where
  "json_of_product p = JObj [(''id'', JNum (product_id p)), (''name'', JStr (product_name p)),
     (''price'', JNum (price p)), (''mrp'', JNum (mrp p)), (''rating'', JNum (rating p)),
     (''inStock'', JBool (inStock p)), (''imageUrl'', JStr (imageUrl p))]"

definition json_of_shopList :: "shopList \<Rightarrow> json" where
  "json_of_shopList l = JObj [(''id'', JStr (list_id l)), (''name'', JStr (list_name l)),
     (''visibility'', JStr (visibility_name (visibility l))), (''ownerId'', JStr (ownerId l)),
     (''createdAt'', JStr (list_createdAt l)), (''updatedAt'', JStr (list_updatedAt l)),
     (''participantIds'', JArr (map JStr (participantIds l)))]"

definition json_of_shopListItem :: "shopListItem \<Rightarrow> json" where
  "json_of_shopListItem i = JObj [(''id'', JStr (item_id i)), (''productId'', JNum (productId i)),
     (''shopListId'', JStr (shopListId i)), (''addedByUserId'', JStr (addedByUserId i)),
     (''addedAt'', JStr (addedAt i))]"

definition json_of_reaction :: "reaction \<Rightarrow> json" where
  "json_of_reaction r = JObj [(''userId'', JStr (userId r)), (''itemId'', JStr (itemId r)),
     (''kind'', JStr (kind_name (kind r)))]"

definition json_of_suggestion :: "suggestion \<Rightarrow> json" where
  "json_of_suggestion sg = JObj [(''id'', JStr (suggestion_id sg)),
     (''itemId'', JStr (sg_itemId sg)), (''suggestedProductId'', JNum (suggestedProductId sg)),
     (''byUserId'', JStr (byUserId sg)), (''ts'', JStr (ts sg))]"

definition json_of_store :: "store \<Rightarrow> json" where
  "json_of_store s = JObj [(''users'', JArr (map json_of_user (users s))),
     (''products'', JArr (map json_of_product (products s))),
     (''shopLists'', JArr (map json_of_shopList (shopLists s))),
     (''shopListItems'', JArr (map json_of_shopListItem (shopListItems s))),
     (''reactions'', JArr (map json_of_reaction (reactions s))),
     (''suggestions'', JArr (map json_of_suggestion (suggestions s)))]"















subsection \<open>The snapshot file\<close>






subsection \<open>Example data\<close>

definition product7 :: product where
  "product7 = \<lparr>product_id = 7, product_name = ''Mug'', price = 199, mrp = 249, rating = 4,
     inStock = True, imageUrl = ''/images/7.png''\<rparr>"

text \<open>A store with one product and nothing else.\<close>

definition catalog_store :: store where
  "catalog_store = defaultData\<lparr>products := [product7]\<rparr>"

text \<open>A store with two lists of one owner, one item in each, and a reaction and a
  suggestion on each item.\<close>

definition userA :: user where
  "userA = \<lparr>user_id = ''u1'', phoneNumber = ''11111'', user_name = ''A'', email = None,
     profilePictureUrl = None, user_createdAt = ''t0'', user_updatedAt = ''t0'',
     shopListIds = [''La'', ''Lb'']\<rparr>"

definition userB :: user where
  "userB = \<lparr>user_id = ''u2'', phoneNumber = ''22222'', user_name = ''B'', email = None,
     profilePictureUrl = None, user_createdAt = ''t0'', user_updatedAt = ''t0'',
     shopListIds = [''La'']\<rparr>"

definition listA :: shopList where
  "listA = \<lparr>list_id = ''La'', list_name = ''Gifts'', visibility = LINK, ownerId = ''u1'',
     list_createdAt = ''t0'', list_updatedAt = ''t0'', participantIds = [''u1'', ''u2'']\<rparr>"

definition listB :: shopList where
  "listB = \<lparr>list_id = ''Lb'', list_name = ''Books'', visibility = PRIVATE, ownerId = ''u1'',
     list_createdAt = ''t0'', list_updatedAt = ''t0'', participantIds = [''u1'']\<rparr>"

definition itemA :: shopListItem where
  "itemA = \<lparr>item_id = ''ia'', productId = 7, shopListId = ''La'', addedByUserId = ''u1'',
     addedAt = ''t1''\<rparr>"

definition itemB :: shopListItem where
  "itemB = \<lparr>item_id = ''ib'', productId = 7, shopListId = ''Lb'', addedByUserId = ''u1'',
     addedAt = ''t2''\<rparr>"

definition two_lists_store :: store where
  "two_lists_store = \<lparr>users = [userA, userB], products = [product7],
     shopLists = [listA, listB], shopListItems = [itemA, itemB],
     reactions = [\<lparr>userId = ''u2'', itemId = ''ia'', kind = LIKE\<rparr>,
                  \<lparr>userId = ''u1'', itemId = ''ib'', kind = DISLIKE\<rparr>],
     suggestions = [\<lparr>suggestion_id = ''s1'', sg_itemId = ''ia'', suggestedProductId = 7,
                      byUserId = ''u2'', ts = ''t3''\<rparr>,
                    \<lparr>suggestion_id = ''s2'', sg_itemId = ''ib'', suggestedProductId = 7,
                      byUserId = ''u2'', ts = ''t4''\<rparr>]\<rparr>"

text \<open>The same store once the list \<open>La\<close> is deleted.\<close>

definition one_list_store :: store where
  "one_list_store = \<lparr>users = [userA\<lparr>shopListIds := [''Lb'']\<rparr>, userB\<lparr>shopListIds := []\<rparr>],
     products = [product7], shopLists = [listB], shopListItems = [itemB],
     reactions = [\<lparr>userId = ''u1'', itemId = ''ib'', kind = DISLIKE\<rparr>],
     suggestions = [\<lparr>suggestion_id = ''s2'', sg_itemId = ''ib'', suggestedProductId = 7,
                      byUserId = ''u2'', ts = ''t4''\<rparr>]\<rparr>"

subsection \<open>Auxiliary notions\<close>

text \<open>\<open>if (!xs.includes(x)) xs.push(x)\<close>, as a function of the array.\<close>

definition joined :: "string \<Rightarrow> string list \<Rightarrow> string list" where
  "joined x xs = (if x \<in> set xs then xs else xs @ [x])"

subsection \<open>Requests that name a list or an item the store does not have\<close>

text \<open>Three requests on the store that holds one product only: an item added to the
  list id \<open>ghost\<close>, a reaction and a suggestion on the item id \<open>ghost\<close>.\<close>

definition add_to_ghost :: request where
  "add_to_ghost = AddItem ''i1'' ''t1'' ''u1'' ''ghost'' (Some 7)"

definition react_to_ghost :: request where
  "react_to_ghost = React ''u1'' ''ghost'' (Some ''LIKE'')"

definition suggest_to_ghost :: request where
  "suggest_to_ghost = Suggest ''s1'' ''t1'' ''u1'' ''ghost'' (Some 7)"

definition ghost_item :: shopListItem where
  "ghost_item = \<lparr>item_id = ''i1'', productId = 7, shopListId = ''ghost'',
     addedByUserId = ''u1'', addedAt = ''t1''\<rparr>"

definition ghost_suggestion :: suggestion where
  "ghost_suggestion = \<lparr>suggestion_id = ''s1'', sg_itemId = ''ghost'', suggestedProductId = 7,
     byUserId = ''u1'', ts = ''t1''\<rparr>"

text \<open>A request body for \<open>POST /lists\<close> whose name is one space.\<close>

definition blank_name_body :: createListBody where
  "blank_name_body = \<lparr>cl_name = Some '' '', cl_visibility = Absent,
     cl_participantPhoneNumbers = Absent\<rparr>"

definition blank_name_list :: shopList where
  "blank_name_list = \<lparr>list_id = ''L1'', list_name = [], visibility = LINK, ownerId = ''u1'',
     list_createdAt = ''t1'', list_updatedAt = ''t2'', participantIds = [''u1'']\<rparr>"

text \<open>The store after the item was added to the list id \<open>ghost\<close>.\<close>

definition ghost_store :: store where
  "ghost_store = run [add_to_ghost] catalog_store"

text \<open>The list or the item a request names is in the store. Requests that name none, or
  that look it up themselves, need nothing.\<close>

fun parent_stored :: "request \<Rightarrow> store \<Rightarrow> bool" where
  "parent_stored (AddItem newId now uid lid pid) s = list_ex (\<lambda>l. list_id l = lid) (shopLists s)"
| "parent_stored (React uid iid raw) s = list_ex (\<lambda>i. item_id i = iid) (shopListItems s)"
| "parent_stored (Suggest newId now uid iid pid) s =
     list_ex (\<lambda>i. item_id i = iid) (shopListItems s)"
| "parent_stored _ s = True"

text \<open>The example store after a reaction and a suggestion on the item id \<open>ghost\<close>,
  which no item has, and that store once the list \<open>Lb\<close> is deleted.\<close>

definition ghost_reaction :: reaction where
  "ghost_reaction = \<lparr>userId = ''u1'', itemId = ''ghost'', kind = LIKE\<rparr>"

definition haunted_store :: store where
  "haunted_store = run [react_to_ghost, suggest_to_ghost] two_lists_store"

definition haunted_store_less_Lb :: store where
  "haunted_store_less_Lb = \<lparr>users = [userA\<lparr>shopListIds := [''La'']\<rparr>, userB],
     products = [product7], shopLists = [listA], shopListItems = [itemA],
     reactions = [\<lparr>userId = ''u2'', itemId = ''ia'', kind = LIKE\<rparr>],
     suggestions = [\<lparr>suggestion_id = ''s1'', sg_itemId = ''ia'', suggestedProductId = 7,
                      byUserId = ''u2'', ts = ''t3''\<rparr>]\<rparr>"

section \<open>Toggling a reaction\<close>

lemma findIndex_None: "findIndex P xs = None \<longleftrightarrow> find P xs = None"
  by (induction xs) auto

lemma findIndex_split:
  "findIndex P xs = Some n \<Longrightarrow>
     \<exists>ys r zs. xs = ys @ r # zs \<and> n = length ys \<and> P r \<and> filter P ys = []"
proof (induction xs arbitrary: n)
  case Nil
  then show ?case by simp
next
  case (Cons x xs)
  show ?case
  proof (cases "P x")
    case True
    with Cons.prems have "n = 0" by simp
    with True show ?thesis by (intro exI[of _ "[]"]) auto
  next
    case False
    with Cons.prems obtain m where m: "findIndex P xs = Some m" "n = Suc m"
      by auto
    from Cons.IH[OF m(1)] obtain ys r zs where
      "xs = ys @ r # zs" "m = length ys" "P r" "filter P ys = []" by blast
    with False m(2) show ?thesis
      by (metis Cons_eq_appendI filter.simps(2) length_Cons)
  qed
qed

lemma find_append_first: "filter P ys = [] \<Longrightarrow> P r \<Longrightarrow> find P (ys @ r # zs) = Some r"
  by (induction ys) (auto split: if_splits)

lemma toggle_absent:
  assumes "find (by_pair u i) rs = None"
  shows "toggle u i k rs = rs @ [\<lparr>userId = u, itemId = i, kind = k\<rparr>]"
  using assms findIndex_None[of "by_pair u i" rs]
  by (simp add: toggle_def by_pair_def[abs_def])

lemma toggle_present:
  assumes "find (by_pair u i) rs = Some r"
  shows "\<exists>ys zs. rs = ys @ r # zs \<and> filter (by_pair u i) ys = [] \<and> by_pair u i r \<and>
           toggle u i k rs = (if kind r = k then ys @ zs else ys @ r\<lparr>kind := k\<rparr> # zs)"
proof -
  from assms obtain n where n: "findIndex (by_pair u i) rs = Some n"
    using findIndex_None[of "by_pair u i" rs] by (cases "findIndex (by_pair u i) rs") auto
  from findIndex_split[OF n] obtain ys r' zs where
    d: "rs = ys @ r' # zs" "n = length ys" "by_pair u i r'" "filter (by_pair u i) ys = []"
    by blast
  with assms have r: "r' = r" by (simp add: find_append_first)
  have "toggle u i k rs = (if kind r = k then ys @ zs else ys @ r\<lparr>kind := k\<rparr> # zs)"
    using n unfolding toggle_def d(1) d(2) r by (simp add: by_pair_def[abs_def] splice1_def)
  with d r show ?thesis by blast
qed

lemma find_None_filter: "find P xs = None \<Longrightarrow> filter P xs = []"
  by (induction xs) (auto split: if_splits)

lemma by_pair_kind_update [simp]: "by_pair u i (r\<lparr>kind := k\<rparr>) = by_pair u i r"
  by (simp add: by_pair_def)

lemma toggle_mine:
  "filter (by_pair u i) (toggle u i k rs) =
     (case find (by_pair u i) rs of
        None \<Rightarrow> [\<lparr>userId = u, itemId = i, kind = k\<rparr>]
      | Some r \<Rightarrow> if kind r = k then tl (filter (by_pair u i) rs)
                  else r\<lparr>kind := k\<rparr> # tl (filter (by_pair u i) rs))"
proof (cases "find (by_pair u i) rs")
  case None
  then show ?thesis
    by (simp add: toggle_absent find_None_filter) (simp add: by_pair_def)
next
  case (Some r)
  from toggle_present[OF Some, of k] obtain ys zs where
    "rs = ys @ r # zs" "filter (by_pair u i) ys = []" "by_pair u i r"
    "toggle u i k rs = (if kind r = k then ys @ zs else ys @ r\<lparr>kind := k\<rparr> # zs)"
    by blast
  with Some show ?thesis by simp
qed

lemma toggle_others:
  "(\<And>r. P r \<Longrightarrow> \<not> by_pair u i r) \<Longrightarrow> (\<And>r k. P (r\<lparr>kind := k\<rparr>) = P r) \<Longrightarrow>
     filter P (toggle u i k rs) = filter P rs"
proof (cases "find (by_pair u i) rs")
  case None
  assume "\<And>r. P r \<Longrightarrow> \<not> by_pair u i r"
  from this[of "\<lparr>userId = u, itemId = i, kind = k\<rparr>"]
  have "\<not> P \<lparr>userId = u, itemId = i, kind = k\<rparr>" by (auto simp: by_pair_def)
  with None show ?thesis by (simp add: toggle_absent)
next
  case (Some r)
  assume a: "\<And>r. P r \<Longrightarrow> \<not> by_pair u i r" "\<And>r k. P (r\<lparr>kind := k\<rparr>) = P r"
  from toggle_present[OF Some, of k] obtain ys zs where
    d: "rs = ys @ r # zs" "by_pair u i r"
    "toggle u i k rs = (if kind r = k then ys @ zs else ys @ r\<lparr>kind := k\<rparr> # zs)"
    by blast
  from a(1) d(2) have "\<not> P r" by blast
  with d a(2) show ?thesis by simp
qed

lemma find_filter: "find P xs = (case filter P xs of [] \<Rightarrow> None | x # _ \<Rightarrow> Some x)"
  by (induction xs) auto

lemma parse_kind_name: "parse_kind (kind_name k) = Some k"
  by (cases k) simp_all

text \<open>
  Claim C1. A toggle-reaction request of user \<open>u\<close> on item \<open>i\<close> with kind \<open>k\<close> (LIKE or
  DISLIKE) succeeds; the store changes in its reactions only, by \<open>toggle\<close>. Among the
  reactions of \<open>u\<close> on \<open>i\<close>: if there is none, one of kind \<open>k\<close> is created; if the
  first one has kind \<open>k\<close>, it is deleted; if it has the other kind, its kind becomes
  \<open>k\<close>. The reactions of every other pair are as before. The response carries the
  numbers of LIKE and DISLIKE reactions on \<open>i\<close> counted in the reactions after the
  transition. When the pair had at most one reaction, looking the pair up afterwards
  gives the next state of the table: the new reaction, none, or the updated one.
\<close>

theorem react_toggle_table:
  "react u i (Some (kind_name k)) s =
     Inr (s\<lparr>reactions := toggle u i k (reactions s)\<rparr>,
          \<lparr>rp_itemId = i,
           likes = count_kind i LIKE (toggle u i k (reactions s)),
           dislikes = count_kind i DISLIKE (toggle u i k (reactions s))\<rparr>)
   \<and> filter (by_pair u i) (toggle u i k (reactions s)) =
       (case find (by_pair u i) (reactions s) of
          None \<Rightarrow> [\<lparr>userId = u, itemId = i, kind = k\<rparr>]
        | Some r \<Rightarrow> if kind r = k then tl (filter (by_pair u i) (reactions s))
                    else r\<lparr>kind := k\<rparr> # tl (filter (by_pair u i) (reactions s)))
   \<and> filter (\<lambda>r. \<not> by_pair u i r) (toggle u i k (reactions s)) =
       filter (\<lambda>r. \<not> by_pair u i r) (reactions s)
   \<and> (reaction_count u i s \<le> 1 \<longrightarrow>
        find (by_pair u i) (toggle u i k (reactions s)) =
          (case find (by_pair u i) (reactions s) of
             None \<Rightarrow> Some \<lparr>userId = u, itemId = i, kind = k\<rparr>
           | Some r \<Rightarrow> if kind r = k then None else Some (r\<lparr>kind := k\<rparr>)))"
proof (intro conjI impI)
  show "react u i (Some (kind_name k)) s =
     Inr (s\<lparr>reactions := toggle u i k (reactions s)\<rparr>,
          \<lparr>rp_itemId = i,
           likes = count_kind i LIKE (toggle u i k (reactions s)),
           dislikes = count_kind i DISLIKE (toggle u i k (reactions s))\<rparr>)"
    by (simp add: react_def parse_kind_name count_kind_def Let_def del: parse_kind.simps)
  show "filter (by_pair u i) (toggle u i k (reactions s)) =
       (case find (by_pair u i) (reactions s) of
          None \<Rightarrow> [\<lparr>userId = u, itemId = i, kind = k\<rparr>]
        | Some r \<Rightarrow> if kind r = k then tl (filter (by_pair u i) (reactions s))
                    else r\<lparr>kind := k\<rparr> # tl (filter (by_pair u i) (reactions s)))"
    by (rule toggle_mine)
  show "filter (\<lambda>r. \<not> by_pair u i r) (toggle u i k (reactions s)) =
       filter (\<lambda>r. \<not> by_pair u i r) (reactions s)"
    by (rule toggle_others) simp_all
  assume one: "reaction_count u i s \<le> 1"
  show "find (by_pair u i) (toggle u i k (reactions s)) =
          (case find (by_pair u i) (reactions s) of
             None \<Rightarrow> Some \<lparr>userId = u, itemId = i, kind = k\<rparr>
           | Some r \<Rightarrow> if kind r = k then None else Some (r\<lparr>kind := k\<rparr>))"
  proof (cases "find (by_pair u i) (reactions s)")
    case None
    then show ?thesis
      by (simp add: find_filter toggle_mine)
  next
    case (Some r)
    then obtain rest where "filter (by_pair u i) (reactions s) = r # rest"
      by (auto simp: find_filter split: list.splits)
    moreover with one have "rest = []"
      by (simp add: reaction_count_def)
    ultimately show ?thesis using Some
      by (simp add: find_filter[of _ "toggle u i k (reactions s)"] toggle_mine)
  qed
qed

text \<open>The table at LIKE, LIKE (no reaction) and at LIKE, DISLIKE (one DISLIKE).\<close>

theorem react_toggle_table_witness:
  "reaction_count ''u1'' ''i1'' (defaultData\<lparr>reactions := [\<lparr>userId = ''u1'', itemId = ''i1'', kind = LIKE\<rparr>]\<rparr>) \<le> 1
   \<and> find (by_pair ''u1'' ''i1'')
        (toggle ''u1'' ''i1'' LIKE [\<lparr>userId = ''u1'', itemId = ''i1'', kind = LIKE\<rparr>]) = None
   \<and> find (by_pair ''u1'' ''i1'')
        (toggle ''u1'' ''i1'' DISLIKE [\<lparr>userId = ''u1'', itemId = ''i1'', kind = LIKE\<rparr>])
       = Some \<lparr>userId = ''u1'', itemId = ''i1'', kind = DISLIKE\<rparr>"
  using react_toggle_table[of "''u1''" "''i1''" LIKE
          "defaultData\<lparr>reactions := [\<lparr>userId = ''u1'', itemId = ''i1'', kind = LIKE\<rparr>]\<rparr>"]
        react_toggle_table[of "''u1''" "''i1''" DISLIKE
          "defaultData\<lparr>reactions := [\<lparr>userId = ''u1'', itemId = ''i1'', kind = LIKE\<rparr>]\<rparr>"]
  by (simp add: reaction_count_def by_pair_def defaultData_def)

section \<open>At most one reaction per user and item\<close>

lemma login_reactions:
  "login newId now now2 body s = Inr (s', u) \<Longrightarrow> reactions s' = reactions s"
  by (auto simp: login_def split: option.splits if_splits)

lemma create_list_reactions:
  "create_list listId created updated env owner body s = Inr (s', l) \<Longrightarrow>
     reactions s' = reactions s"
  by (auto simp: create_list_def Let_def split: option.splits prod.splits)

lemma join_list_reactions: "join_list now uid lid s = Inr (s', l) \<Longrightarrow> reactions s' = reactions s"
  by (auto simp: join_list_def Let_def split: option.splits)

lemma add_item_reactions:
  "add_item newId now uid lid pid s = Inr (s', e) \<Longrightarrow> reactions s' = reactions s"
  by (auto simp: add_item_def Let_def split: option.splits if_splits)

lemma suggest_reactions:
  "suggest newId now uid iid pid s = Inr (s', e) \<Longrightarrow> reactions s' = reactions s"
  by (auto simp: suggest_def Let_def split: option.splits)

lemma delete_list_reactions:
  "delete_list lid s = Inr s' \<Longrightarrow> \<exists>Q. reactions s' = filter Q (reactions s)"
  by (auto simp: delete_list_def Let_def split: option.splits)

lemma remove_item_reactions:
  "remove_item iid s = Inr s' \<Longrightarrow> \<exists>Q. reactions s' = filter Q (reactions s)"
  by (auto simp: remove_item_def split: option.splits)

lemma react_reactions:
  "react uid iid raw s = Inr (s', p) \<Longrightarrow> \<exists>k. reactions s' = toggle uid iid k (reactions s)"
  by (auto simp: react_def Let_def split: option.splits)

lemma apply_request_reactions:
  "reactions (apply_request r s) = reactions s
   \<or> (\<exists>Q. reactions (apply_request r s) = filter Q (reactions s))
   \<or> (\<exists>u i k. reactions (apply_request r s) = toggle u i k (reactions s))"
proof (cases r)
  case (Login newId now now2 body)
  then show ?thesis
    by (auto split: sum.splits dest: login_reactions)
next
  case (CreateList listId created updated env owner body)
  then show ?thesis
    by (auto split: sum.splits dest: create_list_reactions)
next
  case (DeleteList lid)
  then show ?thesis
    using delete_list_reactions[of lid s] by (auto split: sum.splits)
next
  case (JoinList now uid lid)
  then show ?thesis
    by (auto split: sum.splits dest: join_list_reactions)
next
  case (AddItem newId now uid lid pid)
  then show ?thesis
    by (auto split: sum.splits dest: add_item_reactions)
next
  case (RemoveItem iid)
  then show ?thesis
    using remove_item_reactions[of iid s] by (auto split: sum.splits)
next
  case (React uid iid raw)
  then show ?thesis
    using react_reactions[of uid iid raw s] by (auto split: sum.splits)
next
  case (Suggest newId now uid iid pid)
  then show ?thesis
    by (auto split: sum.splits dest: suggest_reactions)
qed

lemma length_filter_filter_le: "length (filter P (filter Q xs)) \<le> length (filter P xs)"
  by (induction xs) auto

lemma toggle_count_le:
  assumes "\<And>u' i'. length (filter (by_pair u' i') rs) \<le> 1"
  shows "length (filter (by_pair u' i') (toggle u i k rs)) \<le> 1"
proof (cases "u' = u \<and> i' = i")
  case True
  have "length (tl (filter (by_pair u i) rs)) = 0"
    using assms[of u i] by simp
  with True show ?thesis
    by (simp add: toggle_mine split: option.splits)
next
  case False
  then have "filter (by_pair u' i') (toggle u i k rs) = filter (by_pair u' i') rs"
    by (intro toggle_others) (auto simp: by_pair_def)
  with assms[of u' i'] show ?thesis by simp
qed

lemma apply_request_at_most_one:
  assumes "\<And>u i. reaction_count u i s \<le> 1"
  shows "reaction_count u i (apply_request r s) \<le> 1"
proof -
  from assms have a: "\<And>u i. length (filter (by_pair u i) (reactions s)) \<le> 1"
    by (simp add: reaction_count_def)
  from apply_request_reactions[of r s] show ?thesis
  proof (elim disjE exE)
    assume "reactions (apply_request r s) = reactions s"
    with a show ?thesis by (simp add: reaction_count_def)
  next
    fix Q assume "reactions (apply_request r s) = filter Q (reactions s)"
    with a[of u i] length_filter_filter_le[of "by_pair u i" Q "reactions s"]
    show ?thesis by (simp add: reaction_count_def)
  next
    fix u' i' k assume "reactions (apply_request r s) = toggle u' i' k (reactions s)"
    with toggle_count_le[of "reactions s" u i u' i' k] a
    show ?thesis by (simp add: reaction_count_def)
  qed
qed

text \<open>
  Claim C3. If the store has at most one reaction for every pair of a user id and an item
  id, then so has the store after any sequence of requests (login, create list, delete
  list, join list, add item, remove item, react, suggest), whether they succeed or are
  refused.
\<close>

theorem at_most_one_reaction_invariant:
  "(\<forall>u i. reaction_count u i s \<le> 1) \<Longrightarrow> \<forall>u i. reaction_count u i (run rs s) \<le> 1"
proof (induction rs arbitrary: s)
  case Nil
  then show ?case by simp
next
  case (Cons r rs)
  from Cons.prems have "\<forall>u i. reaction_count u i (apply_request r s) \<le> 1"
    using apply_request_at_most_one[of s _ _ r] by blast
  from Cons.IH[OF this] show ?case by simp
qed

text \<open>The empty store, and three reactions of two users on one item id.\<close>

theorem at_most_one_reaction_invariant_witness:
  "(\<forall>u i. reaction_count u i defaultData \<le> 1)
   \<and> reaction_count ''u1'' ''ghost''
       (run [React ''u1'' ''ghost'' (Some ''LIKE''), React ''u2'' ''ghost'' (Some ''DISLIKE''),
             React ''u1'' ''ghost'' (Some ''DISLIKE'')] defaultData) \<le> 1
   \<and> reactions
       (run [React ''u1'' ''ghost'' (Some ''LIKE''), React ''u2'' ''ghost'' (Some ''DISLIKE''),
             React ''u1'' ''ghost'' (Some ''DISLIKE'')] defaultData)
       = [\<lparr>userId = ''u1'', itemId = ''ghost'', kind = DISLIKE\<rparr>,
          \<lparr>userId = ''u2'', itemId = ''ghost'', kind = DISLIKE\<rparr>]"
proof -
  have h: "\<forall>u i. reaction_count u i defaultData \<le> 1"
    by (simp add: reaction_count_def defaultData_def)
  have e: "reactions
       (run [React ''u1'' ''ghost'' (Some ''LIKE''), React ''u2'' ''ghost'' (Some ''DISLIKE''),
             React ''u1'' ''ghost'' (Some ''DISLIKE'')] defaultData)
       = [\<lparr>userId = ''u1'', itemId = ''ghost'', kind = DISLIKE\<rparr>,
          \<lparr>userId = ''u2'', itemId = ''ghost'', kind = DISLIKE\<rparr>]"
    by (simp add: defaultData_def react_def toggle_def splice1_def Let_def)
  from at_most_one_reaction_invariant[OF h] h e show ?thesis by blast
qed

section \<open>Deleting a list\<close>

lemma delete_list_existing:
  assumes "find (\<lambda>x. list_id x = L) (shopLists s) = Some l"
  shows "\<exists>s'. delete_list L s = Inr s'
     \<and> products s' = products s
     \<and> users s' = map (\<lambda>u. u\<lparr>shopListIds := filter (\<lambda>x. x \<noteq> L) (shopListIds u)\<rparr>) (users s)
     \<and> shopLists s' = filter (\<lambda>x. list_id x \<noteq> L) (shopLists s)
     \<and> shopListItems s' = filter (\<lambda>i. shopListId i \<noteq> L) (shopListItems s)
     \<and> reactions s' =
         filter (\<lambda>r. list_ex (\<lambda>i. item_id i = itemId r) (shopListItems s')) (reactions s)
     \<and> suggestions s' =
         filter (\<lambda>sg. list_ex (\<lambda>i. item_id i = sg_itemId sg) (shopListItems s')) (suggestions s)"
  using assms by (simp add: delete_list_def Let_def)

lemma distinct_map_eq: "distinct (map f xs) \<Longrightarrow> x \<in> set xs \<Longrightarrow> y \<in> set xs \<Longrightarrow> f x = f y \<Longrightarrow> x = y"
  by (meson distinct_map inj_on_def)

text \<open>
  Claim C2. Deleting a list \<open>L\<close> that is in the store succeeds, and afterwards: no item
  has \<open>L\<close> as its list; every reaction and every suggestion left refers to an item
  that is left; no list has the id \<open>L\<close>; no user has \<open>L\<close> among its list ids. So
  nothing in the store refers to \<open>L\<close>. Item ids being unique (the data model's
  identifiers are), no reaction and no suggestion left carries the id of an item that
  was in \<open>L\<close>.
\<close>

theorem delete_list_cascade:
  assumes "find (\<lambda>x. list_id x = L) (shopLists s) = Some l"
  shows "\<exists>s'. delete_list L s = Inr s'
     \<and> (\<forall>i \<in> set (shopListItems s'). shopListId i \<noteq> L)
     \<and> (\<forall>r \<in> set (reactions s'). \<exists>i \<in> set (shopListItems s'). item_id i = itemId r)
     \<and> (\<forall>sg \<in> set (suggestions s'). \<exists>i \<in> set (shopListItems s'). item_id i = sg_itemId sg)
     \<and> (\<forall>x \<in> set (shopLists s'). list_id x \<noteq> L)
     \<and> (\<forall>u \<in> set (users s'). L \<notin> set (shopListIds u))
     \<and> (distinct (map item_id (shopListItems s)) \<longrightarrow>
          (\<forall>i \<in> set (shopListItems s). shopListId i = L \<longrightarrow>
             (\<forall>r \<in> set (reactions s'). itemId r \<noteq> item_id i)
           \<and> (\<forall>sg \<in> set (suggestions s'). sg_itemId sg \<noteq> item_id i)))"
proof -
  from delete_list_existing[OF assms] obtain s' where d: "delete_list L s = Inr s'"
    and items: "shopListItems s' = filter (\<lambda>i. shopListId i \<noteq> L) (shopListItems s)"
    and lists: "shopLists s' = filter (\<lambda>x. list_id x \<noteq> L) (shopLists s)"
    and us: "users s' = map (\<lambda>u. u\<lparr>shopListIds := filter (\<lambda>x. x \<noteq> L) (shopListIds u)\<rparr>) (users s)"
    and rs: "reactions s' =
         filter (\<lambda>r. list_ex (\<lambda>i. item_id i = itemId r) (shopListItems s')) (reactions s)"
    and sgs: "suggestions s' =
         filter (\<lambda>sg. list_ex (\<lambda>i. item_id i = sg_itemId sg) (shopListItems s')) (suggestions s)"
    by blast
  have 1: "\<forall>i \<in> set (shopListItems s'). shopListId i \<noteq> L" by (simp add: items)
  have 2: "\<forall>r \<in> set (reactions s'). \<exists>i \<in> set (shopListItems s'). item_id i = itemId r"
    by (subst rs) (simp add: list_ex_iff)
  have 3: "\<forall>sg \<in> set (suggestions s'). \<exists>i \<in> set (shopListItems s'). item_id i = sg_itemId sg"
    by (subst sgs) (simp add: list_ex_iff)
  have 4: "\<forall>x \<in> set (shopLists s'). list_id x \<noteq> L" by (simp add: lists)
  have 5: "\<forall>u \<in> set (users s'). L \<notin> set (shopListIds u)" by (auto simp: us)
  have 6: "distinct (map item_id (shopListItems s)) \<longrightarrow>
          (\<forall>i \<in> set (shopListItems s). shopListId i = L \<longrightarrow>
             (\<forall>r \<in> set (reactions s'). itemId r \<noteq> item_id i)
           \<and> (\<forall>sg \<in> set (suggestions s'). sg_itemId sg \<noteq> item_id i))"
  proof (intro impI ballI conjI)
    fix i r
    assume dist: "distinct (map item_id (shopListItems s))"
      and i: "i \<in> set (shopListItems s)" "shopListId i = L"
      and r: "r \<in> set (reactions s')"
    from r 2 items obtain j where j: "j \<in> set (shopListItems s)" "shopListId j \<noteq> L" "item_id j = itemId r"
      by auto
    show "itemId r \<noteq> item_id i"
    proof
      assume "itemId r = item_id i"
      with j have "item_id j = item_id i" by simp
      from distinct_map_eq[OF dist j(1) i(1) this] i(2) j(2) show False by simp
    qed
  next
    fix i sg
    assume dist: "distinct (map item_id (shopListItems s))"
      and i: "i \<in> set (shopListItems s)" "shopListId i = L"
      and r: "sg \<in> set (suggestions s')"
    from r 3 items obtain j where j: "j \<in> set (shopListItems s)" "shopListId j \<noteq> L" "item_id j = sg_itemId sg"
      by auto
    show "sg_itemId sg \<noteq> item_id i"
    proof
      assume "sg_itemId sg = item_id i"
      with j have "item_id j = item_id i" by simp
      from distinct_map_eq[OF dist j(1) i(1) this] i(2) j(2) show False by simp
    qed
  qed
  from d 1 2 3 4 5 6 show ?thesis by blast
qed

text \<open>
  Claim C10 as stated: deleting a list \<open>L\<close> leaves every entity that is not tied to
  \<open>L\<close> unchanged. The store reached from the example store by a reaction and a
  suggestion on the item id \<open>ghost\<close> holds both, and no item has that id, so neither is
  tied to the list \<open>Lb\<close>. Deleting \<open>Lb\<close> succeeds and removes both.
\<close>

theorem delete_list_frame_counterexample:
  "find (\<lambda>x. list_id x = ''Lb'') (shopLists haunted_store) = Some listB
   \<and> ghost_reaction \<in> set (reactions haunted_store)
   \<and> ghost_suggestion \<in> set (suggestions haunted_store)
   \<and> \<not> list_ex (\<lambda>i. item_id i = ''ghost'') (shopListItems haunted_store)
   \<and> delete_list ''Lb'' haunted_store = Inr haunted_store_less_Lb
   \<and> ghost_reaction \<notin> set (reactions haunted_store_less_Lb)
   \<and> ghost_suggestion \<notin> set (suggestions haunted_store_less_Lb)"
  by (simp add: haunted_store_def haunted_store_less_Lb_def ghost_reaction_def
        ghost_suggestion_def react_to_ghost_def suggest_to_ghost_def two_lists_store_def
        userA_def userB_def listA_def listB_def itemA_def itemB_def product7_def
        react_def suggest_def toggle_def delete_list_def Let_def)

text \<open>
  Claim C10, amended. Deleting a list \<open>L\<close> that is in the store leaves the products as
  they are; keeps every list with another id, every item of another list, and every
  reaction and every suggestion whose item is still in the store, each with its value
  and in its order; and changes each user only by taking \<open>L\<close> out of its list ids, so
  a user without \<open>L\<close> is unchanged. Nothing else is kept: a reaction or a suggestion
  stays exactly when its item id is that of an item of another list, so those whose item
  id no stored item has are removed as well, whichever list is deleted.
\<close>

theorem delete_list_frame:
  assumes "find (\<lambda>x. list_id x = L) (shopLists s) = Some l"
  shows "\<exists>s'. delete_list L s = Inr s'
     \<and> products s' = products s
     \<and> shopLists s' = filter (\<lambda>x. list_id x \<noteq> L) (shopLists s)
     \<and> shopListItems s' = filter (\<lambda>i. shopListId i \<noteq> L) (shopListItems s)
     \<and> reactions s' =
         filter (\<lambda>r. \<exists>i \<in> set (shopListItems s'). item_id i = itemId r) (reactions s)
     \<and> suggestions s' =
         filter (\<lambda>sg. \<exists>i \<in> set (shopListItems s'). item_id i = sg_itemId sg) (suggestions s)
     \<and> users s' = map (\<lambda>u. u\<lparr>shopListIds := filter (\<lambda>x. x \<noteq> L) (shopListIds u)\<rparr>) (users s)
     \<and> (\<forall>u \<in> set (users s). L \<notin> set (shopListIds u) \<longrightarrow> u \<in> set (users s'))
     \<and> (\<forall>r \<in> set (reactions s). r \<in> set (reactions s') \<longleftrightarrow>
           (\<exists>i \<in> set (shopListItems s). shopListId i \<noteq> L \<and> item_id i = itemId r))
     \<and> (\<forall>sg \<in> set (suggestions s). sg \<in> set (suggestions s') \<longleftrightarrow>
           (\<exists>i \<in> set (shopListItems s). shopListId i \<noteq> L \<and> item_id i = sg_itemId sg))"
proof -
  from delete_list_existing[OF assms] obtain s' where d: "delete_list L s = Inr s'"
    and ps: "products s' = products s"
    and items: "shopListItems s' = filter (\<lambda>i. shopListId i \<noteq> L) (shopListItems s)"
    and lists: "shopLists s' = filter (\<lambda>x. list_id x \<noteq> L) (shopLists s)"
    and us: "users s' = map (\<lambda>u. u\<lparr>shopListIds := filter (\<lambda>x. x \<noteq> L) (shopListIds u)\<rparr>) (users s)"
    and rs: "reactions s' =
         filter (\<lambda>r. list_ex (\<lambda>i. item_id i = itemId r) (shopListItems s')) (reactions s)"
    and sgs: "suggestions s' =
         filter (\<lambda>sg. list_ex (\<lambda>i. item_id i = sg_itemId sg) (shopListItems s')) (suggestions s)"
    by blast
  have u: "\<forall>u \<in> set (users s). L \<notin> set (shopListIds u) \<longrightarrow> u \<in> set (users s')"
  proof (intro ballI impI)
    fix u assume "u \<in> set (users s)" "L \<notin> set (shopListIds u)"
    moreover from this(2) have "filter (\<lambda>x. x \<noteq> L) (shopListIds u) = shopListIds u"
      by (auto simp: filter_id_conv)
    then have "u\<lparr>shopListIds := filter (\<lambda>x. x \<noteq> L) (shopListIds u)\<rparr> = u" by simp
    ultimately show "u \<in> set (users s')"
      unfolding us set_map by (intro image_eqI[where x = u]) simp_all
  qed
  have rs': "reactions s' =
         filter (\<lambda>r. \<exists>i \<in> set (shopListItems s'). item_id i = itemId r) (reactions s)"
    by (subst rs) (simp only: list_ex_iff)
  have sgs': "suggestions s' =
         filter (\<lambda>sg. \<exists>i \<in> set (shopListItems s'). item_id i = sg_itemId sg) (suggestions s)"
    by (subst sgs) (simp only: list_ex_iff)
  have kr: "\<forall>r \<in> set (reactions s). r \<in> set (reactions s') \<longleftrightarrow>
           (\<exists>i \<in> set (shopListItems s). shopListId i \<noteq> L \<and> item_id i = itemId r)"
    by (subst rs') (auto simp: items)
  have ks: "\<forall>sg \<in> set (suggestions s). sg \<in> set (suggestions s') \<longleftrightarrow>
           (\<exists>i \<in> set (shopListItems s). shopListId i \<noteq> L \<and> item_id i = sg_itemId sg)"
    by (subst sgs') (auto simp: items)
  from d ps lists items rs' sgs' us u kr ks show ?thesis by blast
qed


lemmas example_defs = two_lists_store_def one_list_store_def userA_def userB_def listA_def
  listB_def itemA_def itemB_def product7_def

text \<open>Deleting the list \<open>La\<close> of the example store.\<close>

theorem delete_list_cascade_witness:
  "find (\<lambda>x. list_id x = ''La'') (shopLists two_lists_store) = Some listA
   \<and> distinct (map item_id (shopListItems two_lists_store))
   \<and> delete_list ''La'' two_lists_store = Inr one_list_store
   \<and> list_all (\<lambda>i. shopListId i \<noteq> ''La'') (shopListItems one_list_store)
   \<and> list_all (\<lambda>r. itemId r \<noteq> ''ia'') (reactions one_list_store)"
  using delete_list_cascade[of "''La''" two_lists_store listA]
  by (simp add: example_defs delete_list_def)

text \<open>What stays of the example store when \<open>La\<close> is deleted.\<close>

theorem delete_list_frame_witness:
  "find (\<lambda>x. list_id x = ''La'') (shopLists two_lists_store) = Some listA
   \<and> delete_list ''La'' two_lists_store = Inr one_list_store
   \<and> products one_list_store = products two_lists_store
   \<and> shopLists one_list_store = [listB]
   \<and> shopListItems one_list_store = [itemB]
   \<and> reactions one_list_store = [\<lparr>userId = ''u1'', itemId = ''ib'', kind = DISLIKE\<rparr>]"
  using delete_list_frame[of "''La''" two_lists_store listA]
  by (simp add: example_defs delete_list_def)

section \<open>Joining a list\<close>

lemma find_update_first:
  "(\<And>x. P x \<Longrightarrow> P (f x)) \<Longrightarrow> find P (update_first P f xs) = map_option f (find P xs)"
  by (induction xs) auto

lemma update_first_absent: "find P xs = None \<Longrightarrow> update_first P f xs = xs"
  by (induction xs) (auto split: if_splits)

lemma update_first_twice:
  "(\<And>x. P x \<Longrightarrow> P (f x)) \<Longrightarrow>
     update_first P g (update_first P f xs) = update_first P (\<lambda>x. g (f x)) xs"
  by (induction xs) auto

lemma update_first_found:
  "find P xs = Some y \<Longrightarrow> update_first P f xs = update_first P (\<lambda>_. f y) xs"
  by (induction xs) (auto split: if_splits)

lemma update_first_same: "find P xs = Some y \<Longrightarrow> update_first P (\<lambda>_. y) xs = xs"
  by (induction xs) (auto split: if_splits)

lemma map_update_first:
  "find P xs = Some y \<Longrightarrow> h (f y) = h y \<Longrightarrow> map h (update_first P f xs) = map h xs"
  by (induction xs) (auto split: if_splits)

lemma joined_idem: "joined x (joined x xs) = joined x xs"
  by (simp add: joined_def)

lemma join_list_existing:
  assumes "find (\<lambda>x. list_id x = L) (shopLists s) = Some l"
  shows "join_list t u L s =
     Inr (s\<lparr>users := (case find (\<lambda>x. user_id x = u) (users s) of
                         None \<Rightarrow> users s
                       | Some usr \<Rightarrow> update_first (\<lambda>x. user_id x = u)
                            (\<lambda>x. x\<lparr>shopListIds := joined L (shopListIds x)\<rparr>) (users s)),
            shopLists := update_first (\<lambda>x. list_id x = L)
               (\<lambda>x. x\<lparr>participantIds := joined u (participantIds x), list_updatedAt := t\<rparr>)
               (shopLists s)\<rparr>,
          l\<lparr>participantIds := joined u (participantIds l), list_updatedAt := t\<rparr>)"
proof -
  have lists: "update_first (\<lambda>x. list_id x = L)
       (\<lambda>_. l\<lparr>participantIds := joined u (participantIds l), list_updatedAt := t\<rparr>) (shopLists s)
     = update_first (\<lambda>x. list_id x = L)
         (\<lambda>x. x\<lparr>participantIds := joined u (participantIds x), list_updatedAt := t\<rparr>) (shopLists s)"
    by (subst (2) update_first_found[OF assms]) simp
  have l': "(if u \<in> set (participantIds l) then l
              else l\<lparr>participantIds := participantIds l @ [u]\<rparr>)\<lparr>list_updatedAt := t\<rparr>
       = l\<lparr>participantIds := joined u (participantIds l), list_updatedAt := t\<rparr>"
    by (simp add: joined_def)
  have us: "(case find (\<lambda>x. user_id x = u) (users s) of
               None \<Rightarrow> users s
             | Some usr \<Rightarrow>
                 if L \<in> set (shopListIds usr) then users s
                 else update_first (\<lambda>x. user_id x = u)
                        (\<lambda>x. x\<lparr>shopListIds := shopListIds x @ [L]\<rparr>) (users s))
     = (case find (\<lambda>x. user_id x = u) (users s) of
          None \<Rightarrow> users s
        | Some usr \<Rightarrow> update_first (\<lambda>x. user_id x = u)
                        (\<lambda>x. x\<lparr>shopListIds := joined L (shopListIds x)\<rparr>) (users s))"
  proof (cases "find (\<lambda>x. user_id x = u) (users s)")
    case None
    then show ?thesis by simp
  next
    case (Some usr)
    have "update_first (\<lambda>x. user_id x = u)
            (\<lambda>x. x\<lparr>shopListIds := joined L (shopListIds x)\<rparr>) (users s)
        = (if L \<in> set (shopListIds usr) then users s
           else update_first (\<lambda>x. user_id x = u)
                  (\<lambda>x. x\<lparr>shopListIds := shopListIds x @ [L]\<rparr>) (users s))"
      by (subst update_first_found[OF Some], subst (2) update_first_found[OF Some])
         (simp add: joined_def update_first_same[OF Some])
    with Some show ?thesis by simp
  qed
  show ?thesis
    unfolding join_list_def by (simp add: assms Let_def lists us l' del: update_first.simps)
qed


text \<open>
  Claim C6. Joining a list \<open>L\<close> that is in the store succeeds, and joining it again with
  the same user succeeds as well. The first join adds the user to the participants of
  \<open>L\<close> unless the user is among them already; the second join changes nothing but the
  time stamp \<open>updatedAt\<close> of \<open>L\<close>: the participants of every list and all users are
  those after the first join, so the user is added at most once in total. If the user
  is in the store, the first join adds \<open>L\<close> to the user's list ids unless it is there
  already; if not, the users are left as they are.
\<close>

theorem join_list_idempotent:
  assumes "find (\<lambda>x. list_id x = L) (shopLists s) = Some l"
  shows "\<exists>s1 l1 s2 l2.
      join_list t1 u L s = Inr (s1, l1) \<and> join_list t2 u L s1 = Inr (s2, l2)
    \<and> find (\<lambda>x. list_id x = L) (shopLists s1) = Some l1
    \<and> participantIds l1 =
        (if u \<in> set (participantIds l) then participantIds l else participantIds l @ [u])
    \<and> l2 = l1\<lparr>list_updatedAt := t2\<rparr>
    \<and> s2 = s1\<lparr>shopLists := update_first (\<lambda>x. list_id x = L)
                               (\<lambda>x. x\<lparr>list_updatedAt := t2\<rparr>) (shopLists s1)\<rparr>
    \<and> map participantIds (shopLists s2) = map participantIds (shopLists s1)
    \<and> users s2 = users s1
    \<and> count_list (participantIds l2) u \<le> count_list (participantIds l) u + 1
    \<and> (case find (\<lambda>x. user_id x = u) (users s) of
          None \<Rightarrow> users s1 = users s
        | Some usr \<Rightarrow>
            find (\<lambda>x. user_id x = u) (users s1) =
              Some (usr\<lparr>shopListIds := (if L \<in> set (shopListIds usr) then shopListIds usr
                                          else shopListIds usr @ [L])\<rparr>))"
proof -
  let ?P = "\<lambda>x. list_id x = L"
  let ?Q = "\<lambda>x. user_id x = u"
  let ?fu = "\<lambda>x. x\<lparr>shopListIds := joined L (shopListIds x)\<rparr>"
  let ?fl = "\<lambda>t x. x\<lparr>participantIds := joined u (participantIds x), list_updatedAt := t\<rparr>"
  define us1 where "us1 = (case find ?Q (users s) of None \<Rightarrow> users s
                           | Some usr \<Rightarrow> update_first ?Q ?fu (users s))"
  define s1 where "s1 = s\<lparr>users := us1, shopLists := update_first ?P (?fl t1) (shopLists s)\<rparr>"
  define l1 where "l1 = ?fl t1 l"
  have j1: "join_list t1 u L s = Inr (s1, l1)"
    unfolding s1_def l1_def us1_def by (rule join_list_existing[OF assms])
  have f1: "find ?P (shopLists s1) = Some l1"
    by (simp add: s1_def l1_def find_update_first assms)
  define s2 where "s2 = s1\<lparr>users := (case find ?Q (users s1) of None \<Rightarrow> users s1
                           | Some usr \<Rightarrow> update_first ?Q ?fu (users s1)),
                 shopLists := update_first ?P (?fl t2) (shopLists s1)\<rparr>"
  define l2 where "l2 = ?fl t2 l1"
  have j2: "join_list t2 u L s1 = Inr (s2, l2)"
    unfolding s2_def l2_def by (rule join_list_existing[OF f1])
  have p1: "participantIds l1 =
        (if u \<in> set (participantIds l) then participantIds l else participantIds l @ [u])"
    by (simp add: l1_def joined_def)
  have l2: "l2 = l1\<lparr>list_updatedAt := t2\<rparr>"
    by (simp add: l2_def l1_def joined_idem)
  have lists2: "update_first ?P (?fl t2) (shopLists s1)
      = update_first ?P (\<lambda>x. x\<lparr>list_updatedAt := t2\<rparr>) (shopLists s1)"
    by (subst update_first_found[OF f1], subst (2) update_first_found[OF f1])
       (simp add: l1_def joined_idem)
  have users2: "(case find ?Q (users s1) of None \<Rightarrow> users s1
                | Some usr \<Rightarrow> update_first ?Q ?fu (users s1)) = users s1"
  proof (cases "find ?Q (users s)")
    case None
    then show ?thesis by (simp add: s1_def us1_def)
  next
    case (Some usr)
    then have "find ?Q (users s1) = Some (?fu usr)"
      by (simp add: s1_def us1_def find_update_first)
    moreover have "update_first ?Q ?fu (users s1) = update_first ?Q (\<lambda>x. ?fu (?fu x)) (users s)"
      using Some by (simp add: s1_def us1_def update_first_twice)
    moreover have "(\<lambda>x. ?fu (?fu x)) = ?fu"
      by (simp add: joined_idem)
    ultimately show ?thesis using Some by (simp add: s1_def us1_def joined_idem)
  qed
  have s2: "s2 = s1\<lparr>shopLists := update_first ?P (\<lambda>x. x\<lparr>list_updatedAt := t2\<rparr>) (shopLists s1)\<rparr>"
    unfolding s2_def users2 lists2 by simp
  have m: "map participantIds (shopLists s2) = map participantIds (shopLists s1)"
    unfolding s2 by (simp add: map_update_first[OF f1])
  have u2: "users s2 = users s1"
    unfolding s2 by simp
  have c: "count_list (participantIds l2) u \<le> count_list (participantIds l) u + 1"
    by (simp add: l2 p1)
  have sym: "(case find ?Q (users s) of
          None \<Rightarrow> users s1 = users s
        | Some usr \<Rightarrow>
            find ?Q (users s1) =
              Some (usr\<lparr>shopListIds := (if L \<in> set (shopListIds usr) then shopListIds usr
                                          else shopListIds usr @ [L])\<rparr>))"
    by (simp add: s1_def us1_def find_update_first joined_def split: option.splits)
  from j1 j2 f1 p1 l2 s2 m u2 c sym show ?thesis by blast
qed

text \<open>User \<open>u2\<close> joins list \<open>Lb\<close> of the example store twice.\<close>

theorem join_list_idempotent_witness:
  "find (\<lambda>x. list_id x = ''Lb'') (shopLists two_lists_store) = Some listB
   \<and> (\<exists>s1 l1 s2 l2. join_list ''t5'' ''u2'' ''Lb'' two_lists_store = Inr (s1, l1)
        \<and> join_list ''t6'' ''u2'' ''Lb'' s1 = Inr (s2, l2)
        \<and> participantIds l1 = [''u1'', ''u2'']
        \<and> participantIds l2 = [''u1'', ''u2'']
        \<and> users s2 = users s1
        \<and> find (\<lambda>x. user_id x = ''u2'') (users s1) = Some (userB\<lparr>shopListIds := [''La'', ''Lb'']\<rparr>))"
proof -
  have h: "find (\<lambda>x. list_id x = ''Lb'') (shopLists two_lists_store) = Some listB"
    by (simp add: example_defs)
  have u: "find (\<lambda>x. user_id x = ''u2'') (users two_lists_store) = Some userB"
    by (simp add: example_defs)
  from join_list_idempotent[OF h, of "''t5''" "''u2''" "''t6''"] obtain s1 l1 s2 l2 where
    "join_list ''t5'' ''u2'' ''Lb'' two_lists_store = Inr (s1, l1)"
    "join_list ''t6'' ''u2'' ''Lb'' s1 = Inr (s2, l2)"
    "participantIds l1 = (if ''u2'' \<in> set (participantIds listB) then participantIds listB
                          else participantIds listB @ [''u2''])"
    "l2 = l1\<lparr>list_updatedAt := ''t6''\<rparr>" "users s2 = users s1"
    "(case find (\<lambda>x. user_id x = ''u2'') (users two_lists_store) of
          None \<Rightarrow> users s1 = users two_lists_store
        | Some usr \<Rightarrow>
            find (\<lambda>x. user_id x = ''u2'') (users s1) =
              Some (usr\<lparr>shopListIds := (if ''Lb'' \<in> set (shopListIds usr) then shopListIds usr
                                          else shopListIds usr @ [''Lb''])\<rparr>))"
    by blast
  then have "join_list ''t5'' ''u2'' ''Lb'' two_lists_store = Inr (s1, l1)
        \<and> join_list ''t6'' ''u2'' ''Lb'' s1 = Inr (s2, l2)
        \<and> participantIds l1 = [''u1'', ''u2'']
        \<and> participantIds l2 = [''u1'', ''u2'']
        \<and> users s2 = users s1
        \<and> find (\<lambda>x. user_id x = ''u2'') (users s1) = Some (userB\<lparr>shopListIds := [''La'', ''Lb'']\<rparr>)"
    by (simp add: u) (simp add: listB_def userB_def)
  with h show ?thesis by blast
qed

section \<open>Requests on lists and items that are not in the store\<close>

text \<open>
  Claim C5 says that adding an item to a list id that is not in the store, reacting to
  an item id that is not in the store and suggesting for such an item id are refused as
  not found and leave the store as it is. The handlers do not look the list or the item
  up: on the store with one product and no list and no item, each of the three requests
  succeeds and writes its entity.
\<close>

theorem missing_parent_accepted:
  "find (\<lambda>l. list_id l = ''ghost'') (shopLists catalog_store) = None
   \<and> find (\<lambda>i. item_id i = ''ghost'') (shopListItems catalog_store) = None
   \<and> add_item ''i1'' ''t1'' ''u1'' ''ghost'' (Some 7) catalog_store =
       Inr (catalog_store\<lparr>shopListItems := [ghost_item]\<rparr>,
            \<lparr>ei_item = ghost_item, ei_product = Some product7, ei_reactions = [],
             ei_suggestions = []\<rparr>)
   \<and> react ''u1'' ''ghost'' (Some ''LIKE'') catalog_store =
       Inr (catalog_store\<lparr>reactions := [\<lparr>userId = ''u1'', itemId = ''ghost'', kind = LIKE\<rparr>]\<rparr>,
            \<lparr>rp_itemId = ''ghost'', likes = 1, dislikes = 0\<rparr>)
   \<and> suggest ''s1'' ''t1'' ''u1'' ''ghost'' (Some 7) catalog_store =
       Inr (catalog_store\<lparr>suggestions := [ghost_suggestion]\<rparr>,
            \<lparr>es_suggestion = ghost_suggestion, es_product = Some product7, es_byUser = None\<rparr>)"
  by (simp add: catalog_store_def defaultData_def product7_def ghost_item_def
        ghost_suggestion_def add_item_def react_def suggest_def toggle_def enrichItem_def
        enrichSuggestion_def Let_def)

text \<open>
  Claim C4 says that no sequence of requests leads from a store without orphans to a
  store with an item whose list, or a reaction or suggestion whose item, is missing.
  The store with one product has no orphans; one request of each of the three kinds
  above leads to a store that has one.
\<close>

theorem orphans_reachable:
  "no_orphans catalog_store
   \<and> \<not> items_have_lists (run [add_to_ghost] catalog_store)
   \<and> \<not> reactions_have_items (run [react_to_ghost] catalog_store)
   \<and> \<not> suggestions_have_items (run [suggest_to_ghost] catalog_store)"
  by (simp add: catalog_store_def defaultData_def product7_def add_to_ghost_def
        react_to_ghost_def suggest_to_ghost_def no_orphans_def items_have_lists_def
        reactions_have_items_def suggestions_have_items_def
        add_item_def react_def suggest_def toggle_def enrichItem_def enrichSuggestion_def
        Let_def)

text \<open>
  Claim C8 says that a list stored by create-list has a non-empty name. The name is
  checked for length before it is trimmed: the name of one space passes the check, and
  the list is stored with the empty name.
\<close>

theorem blank_name_stored:
  "create_list ''L1'' ''t1'' ''t2'' (\<lambda>_. (''x'', ''t3'', ''t4'')) ''u1'' blank_name_body
       defaultData =
     Inr (defaultData\<lparr>shopLists := [blank_name_list]\<rparr>, blank_name_list)
   \<and> list_name blank_name_list = []"
  by (simp add: create_list_def parse_CreateListBody_def blank_name_body_def
        blank_name_list_def defaultData_def trim_def is_space_def Let_def)

section \<open>Listing the items of a list\<close>

lemma mset_insert_by: "mset (insert_by cmp x xs) = add_mset x (mset xs)"
  by (induction xs) auto

lemma mset_sort_by: "mset (sort_by cmp xs) = mset xs"
  by (induction xs) (auto simp: mset_insert_by)

lemma ei_item_enrichItem: "ei_item (enrichItem s i) = i"
  by (simp add: enrichItem_def)

text \<open>
  Claim C9 as stated: listing the items of a list id that is not in the store returns the
  empty collection. In the store reached by adding an item to the list id \<open>ghost\<close>
  there is no such list, and the listing for \<open>ghost\<close> is not empty.
\<close>

theorem list_items_nonexistent_list_counterexample:
  "find (\<lambda>l. list_id l = ''ghost'') (shopLists ghost_store) = None
   \<and> list_items ''ghost'' ghost_store \<noteq> Inr []"
  by (simp add: ghost_store_def add_to_ghost_def catalog_store_def defaultData_def product7_def
        add_item_def list_items_def Let_def)

text \<open>
  Claim C9, amended. Listing the items of a list id, whether the list is in the store or
  not, succeeds and returns exactly the items whose list id equals it, each once and
  enriched. The result is empty exactly when no stored item has that list id; for a
  list id that is not in the store this is the case when every stored item's list is
  in the store.
\<close>

theorem list_items_exact:
  "\<exists>xs. list_items lid s = Inr xs
     \<and> mset (map ei_item xs) = mset (filter (\<lambda>i. shopListId i = lid) (shopListItems s))
     \<and> xs = map (enrichItem s) (map ei_item xs)
     \<and> (xs = [] \<longleftrightarrow> \<not> list_ex (\<lambda>i. shopListId i = lid) (shopListItems s))
     \<and> (items_have_lists s \<and> find (\<lambda>l. list_id l = lid) (shopLists s) = None \<longrightarrow> xs = [])"
proof -
  define ys where "ys = sort_by cmp_addedAt (filter (\<lambda>i. shopListId i = lid) (shopListItems s))"
  define xs where "xs = map (enrichItem s) ys"
  have m: "map ei_item xs = ys"
    by (simp add: xs_def o_def ei_item_enrichItem)
  have 1: "list_items lid s = Inr xs"
    by (simp add: list_items_def xs_def ys_def)
  have 2: "mset (map ei_item xs) = mset (filter (\<lambda>i. shopListId i = lid) (shopListItems s))"
    unfolding m by (simp add: ys_def mset_sort_by)
  have 3: "xs = map (enrichItem s) (map ei_item xs)"
    unfolding m by (simp add: xs_def)
  have "xs = [] \<longleftrightarrow> mset (map ei_item xs) = {#}" by simp
  also have "\<dots> \<longleftrightarrow> filter (\<lambda>i. shopListId i = lid) (shopListItems s) = []"
    unfolding 2 by (simp only: mset_zero_iff)
  also have "\<dots> \<longleftrightarrow> \<not> list_ex (\<lambda>i. shopListId i = lid) (shopListItems s)"
    by (auto simp: filter_empty_conv list_ex_iff)
  finally have 4: "xs = [] \<longleftrightarrow> \<not> list_ex (\<lambda>i. shopListId i = lid) (shopListItems s)" .
  have 5: "items_have_lists s \<and> find (\<lambda>l. list_id l = lid) (shopLists s) = None \<longrightarrow> xs = []"
  proof
    assume a: "items_have_lists s \<and> find (\<lambda>l. list_id l = lid) (shopLists s) = None"
    then have "\<forall>l \<in> set (shopLists s). list_id l \<noteq> lid"
      by (simp add: find_None_iff)
    with a have "\<not> list_ex (\<lambda>i. shopListId i = lid) (shopListItems s)"
      by (auto simp: items_have_lists_def list_all_iff list_ex_iff)
    with 4 show "xs = []" by simp
  qed
  from 1 2 3 4 5 show ?thesis by blast
qed

text \<open>The listing for \<open>ghost\<close> on the store without items, and for \<open>La\<close> on the
  example store.\<close>

theorem list_items_exact_witness:
  "items_have_lists catalog_store
   \<and> find (\<lambda>l. list_id l = ''ghost'') (shopLists catalog_store) = None
   \<and> list_items ''ghost'' catalog_store = Inr []
   \<and> list_items ''La'' two_lists_store = Inr [enrichItem two_lists_store itemA]"
  using list_items_exact[of "''ghost''" catalog_store] list_items_exact[of "''La''" two_lists_store]
  by (simp add: catalog_store_def defaultData_def items_have_lists_def list_items_def
        example_defs)

section \<open>The snapshot file\<close>

declare show_nat.simps [simp del]























































section \<open>What the handlers do keep\<close>

lemma all_dropWhile: "(\<forall>x \<in> set (dropWhile P xs). P x) \<longleftrightarrow> (\<forall>x \<in> set xs. P x)"
  by (induction xs) auto

lemma trim_empty_iff: "trim nm = [] \<longleftrightarrow> list_all is_space nm"
  by (simp add: trim_def all_dropWhile list_all_iff)

text \<open>
  Create-list with a name only (no visibility, no phone numbers): a missing or empty name
  is refused as invalid input; any other name gives a list with visibility LINK, the
  owner as the one participant and the trimmed name, put in front of the lists, and
  the list id is added to the list ids of the owner's user record if there is one. The
  stored name is empty exactly when the given name is all white space.
\<close>

theorem create_list_plain:
  "create_list listId created updated env owner
       \<lparr>cl_name = nm, cl_visibility = Absent, cl_participantPhoneNumbers = Absent\<rparr> s =
     (case nm of
        None \<Rightarrow> Inl InvalidInput
      | Some n \<Rightarrow>
          if n = [] then Inl InvalidInput
          else Inr (s\<lparr>users := (case find (\<lambda>u. user_id u = owner) (users s) of
                                    None \<Rightarrow> users s
                                  | Some me \<Rightarrow> update_first (\<lambda>u. user_id u = owner)
                                      (\<lambda>u. u\<lparr>shopListIds := joined listId (shopListIds u)\<rparr>)
                                      (users s)),
                      shopLists := \<lparr>list_id = listId, list_name = trim n, visibility = LINK,
                                     ownerId = owner, list_createdAt = created,
                                     list_updatedAt = updated, participantIds = [owner]\<rparr>
                                   # shopLists s\<rparr>,
                    \<lparr>list_id = listId, list_name = trim n, visibility = LINK,
                     ownerId = owner, list_createdAt = created,
                     list_updatedAt = updated, participantIds = [owner]\<rparr>))
   \<and> (case nm of None \<Rightarrow> True | Some n \<Rightarrow> (trim n = [] \<longleftrightarrow> list_all is_space n))"
proof -
  have us: "\<And>me. find (\<lambda>u. user_id u = owner) (users s) = Some me \<Longrightarrow>
      (if listId \<in> set (shopListIds me) then users s
       else update_first (\<lambda>u. user_id u = owner)
              (\<lambda>u. u\<lparr>shopListIds := shopListIds u @ [listId]\<rparr>) (users s))
      = update_first (\<lambda>u. user_id u = owner)
          (\<lambda>u. u\<lparr>shopListIds := joined listId (shopListIds u)\<rparr>) (users s)"
  proof -
    fix me assume f: "find (\<lambda>u. user_id u = owner) (users s) = Some me"
    show "(if listId \<in> set (shopListIds me) then users s
       else update_first (\<lambda>u. user_id u = owner)
              (\<lambda>u. u\<lparr>shopListIds := shopListIds u @ [listId]\<rparr>) (users s))
      = update_first (\<lambda>u. user_id u = owner)
          (\<lambda>u. u\<lparr>shopListIds := joined listId (shopListIds u)\<rparr>) (users s)"
      by (subst update_first_found[OF f], subst (2) update_first_found[OF f])
         (simp add: joined_def update_first_same[OF f])
  qed
  show ?thesis
    by (cases nm)
       (simp_all add: create_list_def parse_CreateListBody_def Let_def us trim_empty_iff
          split: option.splits)
qed


text \<open>
  Delete-list and join-list on a list id that is not in the store, and remove-item on an
  item id that is not in the store, are refused as not found, and the store stays as it
  is.
\<close>

theorem missing_rejected_by_delete_join_remove:
  "(find (\<lambda>x. list_id x = L) (shopLists s) = None \<longrightarrow>
      delete_list L s = Inl NotFound \<and> join_list now u L s = Inl NotFound
      \<and> apply_request (DeleteList L) s = s \<and> apply_request (JoinList now u L) s = s)
   \<and> (find (\<lambda>x. item_id x = i) (shopListItems s) = None \<longrightarrow>
      remove_item i s = Inl NotFound \<and> apply_request (RemoveItem i) s = s)"
  by (simp add: delete_list_def join_list_def remove_item_def)

text \<open>The three requests with the id \<open>ghost\<close> on the store with one product.\<close>

theorem missing_rejected_by_delete_join_remove_witness:
  "find (\<lambda>x. list_id x = ''ghost'') (shopLists catalog_store) = None
   \<and> find (\<lambda>x. item_id x = ''ghost'') (shopListItems catalog_store) = None
   \<and> delete_list ''ghost'' catalog_store = Inl NotFound
   \<and> join_list ''t1'' ''u1'' ''ghost'' catalog_store = Inl NotFound
   \<and> remove_item ''ghost'' catalog_store = Inl NotFound"
  using missing_rejected_by_delete_join_remove[of "''ghost''" catalog_store "''t1''" "''u1''" "''ghost''"]
  by (simp add: catalog_store_def defaultData_def)

lemma no_orphans_iff:
  "no_orphans s \<longleftrightarrow>
     (\<forall>i \<in> set (shopListItems s). \<exists>l \<in> set (shopLists s). list_id l = shopListId i)
   \<and> (\<forall>r \<in> set (reactions s). \<exists>i \<in> set (shopListItems s). item_id i = itemId r)
   \<and> (\<forall>sg \<in> set (suggestions s). \<exists>i \<in> set (shopListItems s). item_id i = sg_itemId sg)"
  by (simp add: no_orphans_def items_have_lists_def reactions_have_items_def
        suggestions_have_items_def list_all_iff list_ex_iff)

lemma toggle_itemIds: "r \<in> set (toggle u i k rs) \<Longrightarrow> itemId r = i \<or> itemId r \<in> itemId ` set rs"
proof (cases "find (by_pair u i) rs")
  case None
  assume "r \<in> set (toggle u i k rs)"
  with None show ?thesis by (auto simp: toggle_absent)
next
  case (Some r0)
  assume r: "r \<in> set (toggle u i k rs)"
  from toggle_present[OF Some, of k] obtain ys zs where
    d: "rs = ys @ r0 # zs" "by_pair u i r0"
    "toggle u i k rs = (if kind r0 = k then ys @ zs else ys @ r0\<lparr>kind := k\<rparr> # zs)"
    by blast
  from r d(3) have "r \<in> set ys \<or> r \<in> set zs \<or> r = r0\<lparr>kind := k\<rparr>"
    by (auto split: if_splits)
  with d(1,2) show ?thesis by (auto simp: by_pair_def)
qed

lemma create_list_shape:
  "create_list listId created updated env owner body s = Inr (s', l) \<Longrightarrow>
     shopLists s' = l # shopLists s \<and> shopListItems s' = shopListItems s
     \<and> reactions s' = reactions s \<and> suggestions s' = suggestions s"
  by (auto simp: create_list_def Let_def split: option.splits prod.splits)

lemma login_shape:
  "login newId now now2 body s = Inr (s', u) \<Longrightarrow>
     shopLists s' = shopLists s \<and> shopListItems s' = shopListItems s
     \<and> reactions s' = reactions s \<and> suggestions s' = suggestions s"
  by (auto simp: login_def split: option.splits if_splits)

lemma no_orphans_login:
  "no_orphans s \<Longrightarrow> no_orphans (apply_request (Login newId now now2 body) s)"
  by (auto simp: no_orphans_iff split: sum.splits dest!: login_shape)

lemma no_orphans_create_list:
  "no_orphans s \<Longrightarrow>
     no_orphans (apply_request (CreateList listId created updated env owner body) s)"
  by (auto simp: no_orphans_iff split: sum.splits dest!: create_list_shape)

lemma no_orphans_delete_list: "no_orphans s \<Longrightarrow> no_orphans (apply_request (DeleteList L) s)"
proof (cases "find (\<lambda>x. list_id x = L) (shopLists s)")
  case None
  assume "no_orphans s"
  with None show ?thesis by (simp add: delete_list_def)
next
  case (Some l)
  assume a: "no_orphans s"
  from delete_list_existing[OF Some] obtain s' where d: "delete_list L s = Inr s'"
    and items: "shopListItems s' = filter (\<lambda>i. shopListId i \<noteq> L) (shopListItems s)"
    and lists: "shopLists s' = filter (\<lambda>x. list_id x \<noteq> L) (shopLists s)"
    and rs: "reactions s' =
         filter (\<lambda>r. list_ex (\<lambda>i. item_id i = itemId r) (shopListItems s')) (reactions s)"
    and sgs: "suggestions s' =
         filter (\<lambda>sg. list_ex (\<lambda>i. item_id i = sg_itemId sg) (shopListItems s')) (suggestions s)"
    by blast
  have 1: "\<forall>i \<in> set (shopListItems s'). \<exists>l \<in> set (shopLists s'). list_id l = shopListId i"
    using a unfolding items lists no_orphans_iff by fastforce
  have 2: "\<forall>r \<in> set (reactions s'). \<exists>i \<in> set (shopListItems s'). item_id i = itemId r"
    by (subst rs) (simp add: list_ex_iff)
  have 3: "\<forall>sg \<in> set (suggestions s'). \<exists>i \<in> set (shopListItems s'). item_id i = sg_itemId sg"
    by (subst sgs) (simp add: list_ex_iff)
  from 1 2 3 have "no_orphans s'" by (simp add: no_orphans_iff)
  with d show ?thesis by simp
qed

lemma bex_update_first:
  "find P xs = Some y \<Longrightarrow> h (f y) = h y \<Longrightarrow>
     (\<exists>l \<in> set (update_first P f xs). h l = x) \<longleftrightarrow> (\<exists>l \<in> set xs. h l = x)"
  by (induction xs) (auto split: if_splits)

lemma no_orphans_join_list: "no_orphans s \<Longrightarrow> no_orphans (apply_request (JoinList now u L) s)"
proof (cases "find (\<lambda>x. list_id x = L) (shopLists s)")
  case None
  assume "no_orphans s"
  with None show ?thesis by (simp add: join_list_def)
next
  case (Some l)
  assume a: "no_orphans s"
  have "\<And>x. (\<exists>l \<in> set (update_first (\<lambda>x. list_id x = L)
               (\<lambda>x. x\<lparr>participantIds := joined u (participantIds x), list_updatedAt := now\<rparr>)
               (shopLists s)). list_id l = x) = (\<exists>l \<in> set (shopLists s). list_id l = x)"
    by (rule bex_update_first[OF Some]) simp
  with a show ?thesis
    by (simp add: join_list_existing[OF Some] no_orphans_iff)
qed

lemma no_orphans_add_item:
  "no_orphans s \<Longrightarrow> list_ex (\<lambda>l. list_id l = lid) (shopLists s) \<Longrightarrow>
     no_orphans (apply_request (AddItem newId now uid lid pid) s)"
  by (auto simp: no_orphans_iff add_item_def Let_def list_ex_iff split: option.splits)

lemma no_orphans_remove_item: "no_orphans s \<Longrightarrow> no_orphans (apply_request (RemoveItem iid) s)"
  by (fastforce simp: no_orphans_iff remove_item_def split: option.splits)

lemma no_orphans_react:
  assumes "no_orphans s" "list_ex (\<lambda>i. item_id i = iid) (shopListItems s)"
  shows "no_orphans (apply_request (React uid iid raw) s)"
proof (cases "react uid iid raw s")
  case (Inl e)
  with assms show ?thesis by simp
next
  case (Inr p)
  then obtain k where s': "apply_request (React uid iid raw) s
      = s\<lparr>reactions := toggle uid iid k (reactions s)\<rparr>"
    by (auto simp: react_def Let_def split: option.splits)
  have "\<forall>r \<in> set (toggle uid iid k (reactions s)). \<exists>i \<in> set (shopListItems s). item_id i = itemId r"
  proof
    fix r assume "r \<in> set (toggle uid iid k (reactions s))"
    from toggle_itemIds[OF this] assms show "\<exists>i \<in> set (shopListItems s). item_id i = itemId r"
      by (auto simp: no_orphans_iff list_ex_iff)
  qed
  with assms(1) show ?thesis unfolding s' by (simp add: no_orphans_iff)
qed

lemma no_orphans_suggest:
  "no_orphans s \<Longrightarrow> list_ex (\<lambda>i. item_id i = iid) (shopListItems s) \<Longrightarrow>
     no_orphans (apply_request (Suggest newId now uid iid pid) s)"
  by (auto simp: no_orphans_iff suggest_def Let_def list_ex_iff split: option.splits)

text \<open>
  A request keeps the store free of orphans when the list it adds an item to, or the
  item it reacts to or suggests for, is in the store; login, create-list, delete-list,
  join-list and remove-item keep it so in any case.
\<close>

theorem no_orphans_kept_when_parent_stored:
  "no_orphans s \<Longrightarrow> parent_stored r s \<Longrightarrow> no_orphans (apply_request r s)"
proof (cases r)
  case (Login newId now now2 body)
  assume "no_orphans s"
  with Login show ?thesis by (simp only: no_orphans_login)
next
  case (CreateList listId created updated env owner body)
  assume "no_orphans s"
  with CreateList show ?thesis by (simp only: no_orphans_create_list)
next
  case (DeleteList L)
  assume "no_orphans s"
  with DeleteList show ?thesis by (simp only: no_orphans_delete_list)
next
  case (JoinList now u L)
  assume "no_orphans s"
  with JoinList show ?thesis by (simp only: no_orphans_join_list)
next
  case (AddItem newId now uid lid pid)
  assume "no_orphans s" "parent_stored r s"
  with AddItem show ?thesis by (simp only: no_orphans_add_item parent_stored.simps)
next
  case (RemoveItem iid)
  assume "no_orphans s"
  with RemoveItem show ?thesis by (simp only: no_orphans_remove_item)
next
  case (React uid iid raw)
  assume "no_orphans s" "parent_stored r s"
  with React show ?thesis by (simp only: no_orphans_react parent_stored.simps)
next
  case (Suggest newId now uid iid pid)
  assume "no_orphans s" "parent_stored r s"
  with Suggest show ?thesis by (simp only: no_orphans_suggest parent_stored.simps)
qed

text \<open>A reaction to a stored item and the deletion of a list, on the example store.\<close>

theorem no_orphans_kept_when_parent_stored_witness:
  "no_orphans two_lists_store
   \<and> parent_stored (React ''u1'' ''ia'' (Some ''LIKE'')) two_lists_store
   \<and> no_orphans (apply_request (React ''u1'' ''ia'' (Some ''LIKE'')) two_lists_store)
   \<and> no_orphans (apply_request (DeleteList ''La'') two_lists_store)"
proof -
  have h: "no_orphans two_lists_store"
    by (simp add: no_orphans_def items_have_lists_def reactions_have_items_def
          suggestions_have_items_def example_defs)
  have p: "parent_stored (React ''u1'' ''ia'' (Some ''LIKE'')) two_lists_store"
    by (simp add: example_defs)
  have q: "parent_stored (DeleteList ''La'') two_lists_store" by simp
  from h p no_orphans_kept_when_parent_stored[OF h p] no_orphans_kept_when_parent_stored[OF h q]
  show ?thesis by blast
qed

text \<open>The text of the empty store.\<close>

lemma snapshot_text_default:
  "JSON_stringify (json_of_store defaultData) =
     ''{'' @ [CHR 0x0A] @
     ''  '' @ [CHR 0x22] @ ''users'' @ [CHR 0x22] @ '': [],'' @ [CHR 0x0A] @
     ''  '' @ [CHR 0x22] @ ''products'' @ [CHR 0x22] @ '': [],'' @ [CHR 0x0A] @
     ''  '' @ [CHR 0x22] @ ''shopLists'' @ [CHR 0x22] @ '': [],'' @ [CHR 0x0A] @
     ''  '' @ [CHR 0x22] @ ''shopListItems'' @ [CHR 0x22] @ '': [],'' @ [CHR 0x0A] @
     ''  '' @ [CHR 0x22] @ ''reactions'' @ [CHR 0x22] @ '': [],'' @ [CHR 0x0A] @
     ''  '' @ [CHR 0x22] @ ''suggestions'' @ [CHR 0x22] @ '': []'' @ [CHR 0x0A] @
     ''}''"
  by code_simp

text \<open>The text of an array of one reaction and a number.\<close>

lemma snapshot_text_reaction:
  "JSON_stringify (JArr [json_of_reaction ghost_reaction, JNum (- 12)]) =
     ''['' @ [CHR 0x0A] @
     ''  {'' @ [CHR 0x0A] @
     ''    '' @ [CHR 0x22] @ ''userId'' @ [CHR 0x22] @ '': '' @ [CHR 0x22] @ ''u1'' @ [CHR 0x22]
       @ '','' @ [CHR 0x0A] @
     ''    '' @ [CHR 0x22] @ ''itemId'' @ [CHR 0x22] @ '': '' @ [CHR 0x22] @ ''ghost''
       @ [CHR 0x22] @ '','' @ [CHR 0x0A] @
     ''    '' @ [CHR 0x22] @ ''kind'' @ [CHR 0x22] @ '': '' @ [CHR 0x22] @ ''LIKE'' @ [CHR 0x22]
       @ [CHR 0x0A] @
     ''  },'' @ [CHR 0x0A] @
     ''  -12'' @ [CHR 0x0A] @
     '']''"
  by code_simp

text \<open>The text of a string with a quote, a line feed and two control characters.\<close>

lemma snapshot_text_escapes:
  "JSON_stringify (JStr [CHR ''a'', CHR 0x22, CHR 0x0A, CHR 0x01, CHR 0x1F]) =
     [CHR 0x22] @ ''a'' @ [CHR 0x5C, CHR 0x22] @ [CHR 0x5C] @ ''n'' @ [CHR 0x5C] @ ''u0001''
       @ [CHR 0x5C] @ ''u001f'' @ [CHR 0x22]"
  by code_simp

text \<open>White space is skipped; a trailing comma and a leading zero are refused.\<close>

lemma parse_array_text:
  "JSON_parse (''[1, 2'' @ [CHR 0x0A] @ '']'') = Some (JArr [JNum 1, JNum 2])"
  by code_simp

lemma parse_trailing_comma:
  "JSON_parse ''[1,]'' = None"
  by code_simp

lemma parse_leading_zero:
  "JSON_parse ''01'' = None"
  by code_simp

end
